theory Spec2Isabelle
  imports Main "HOL-Library.Word"
begin

section \<open>The send-side video stream orchestrator (video/video_send_stream.cc)\<close>

text \<open>
  A shallow embedding of \<^verbatim>\<open>VideoSendStreamImpl\<close> and of its watchdog task
  \<^verbatim>\<open>CheckEncoderActivityTask\<close>. The object's fields are a record; every method is a
  function from the state to the new state. What a method does to its collaborators
  (bandwidth allocator, encoder, statistics proxy, FEC controller) is appended to the
  trace \<open>calls\<close>; what it logs is appended to \<open>rtc_log\<close>. A failed \<^verbatim>\<open>RTC_DCHECK\<close> or
  \<^verbatim>\<open>RTC_CHECK\<close>, a null dereference, an index out of range and a division by zero are
  error results.

  Conventions: \<^verbatim>\<open>size_t\<close> is 64 bits wide; a C++ \<^verbatim>\<open>int\<close> that takes part in arithmetic
  is a 32-bit word read in two's complement, one that is only compared and assigned is
  an \<open>int\<close>. Thread affinity checks (\<^verbatim>\<open>RTC_DCHECK_RUN_ON\<close>), trace events and critical
  sections have no counterpart: the model is the serialized execution on the worker
  queue. The same holds for the RTP state maps, frame recording, RTCP delivery and the
  encoder reconfiguration callback, which none of the functions below reads. The
  collaborators handed to the stream (call statistics, transport, allocator, encoder,
  FEC controller, statistics proxy) exist: the pointers to them are not null.
\<close>

type_synonym uint8_t = "8 word"
type_synonym uint16_t = "16 word"
type_synonym uint32_t = "32 word"
type_synonym int32_t = "32 word"
type_synonym int64_t = "64 word"
type_synonym size_t = "64 word"

datatype error = DCheckFailed | CheckFailed | NullDereference | OutOfRange | DivisionByZero

datatype LoggingSeverity = LS_INFO | LS_WARNING | LS_ERROR

type_synonym log_line = "LoggingSeverity \<times> string"

subsection \<open>Constants\<close>

definition kMinSendSidePacketHistorySize :: nat where
  "kMinSendSidePacketHistorySize = 600"

definition kSendSideSeqNumSetMaxSize :: nat where
  "kSendSideSeqNumSetMaxSize = 5500"

definition kPathMTU :: size_t where
  "kPathMTU = 1500"

text \<open>
  Modelled from the spec: \<^verbatim>\<open>PacketFeedback::kNotReceived\<close> is declared in a header that
  is not part of the sources at hand. A report "indicates non-arrival" when its arrival
  time equals this marker; its value is taken to be \<open>-1\<close>.
\<close>

definition kNotReceived :: int where
  "kNotReceived = - 1"

subsection \<open>Configuration\<close>

record RtpExtension =
  ext_uri :: string
  ext_id :: int

record Config =
  ssrcs :: "uint32_t list"
  rtx_ssrcs :: "uint32_t list"
  rtx_payload_type :: int
  extensions :: "RtpExtension list"
  flexfec_payload_type :: int
  flexfec_ssrc :: uint32_t
  flexfec_protected_media_ssrcs :: "uint32_t list"
  red_payload_type :: int
  ulpfec_payload_type :: int
  red_rtx_payload_type :: int
  nack_rtp_history_ms :: int
  max_packet_size :: size_t
  payload_name :: string
  encoder_payload_type :: int
  encoder_present :: bool
  suspend_below_min_bitrate :: bool

text \<open>
  What the stream reads from outside itself: the field trials, the FEC controller's
  answer to \<^verbatim>\<open>UpdateFecRates\<close>, the statistics proxy's frame rate, whether at most one
  ALR field trial is enabled, which header extensions are supported for video, and
  the code an RTP module returns when an extension is registered on it (given the
  extensions registered on that module before). They are parameters of the model.
\<close>

record environment =
  field_trial_IsEnabled :: "string \<Rightarrow> bool"
  UpdateFecRates :: "uint32_t \<Rightarrow> int \<Rightarrow> uint8_t \<Rightarrow> bool list \<Rightarrow> int64_t \<Rightarrow> uint32_t"
  GetSendFrameRate :: int
  MaxOneFieldTrialEnabled :: bool
  IsSupportedForVideo :: "string \<Rightarrow> bool"
  RegisterSendRtpHeaderExtension :: "(string \<times> int) list \<Rightarrow> string \<Rightarrow> int \<Rightarrow> int"

subsection \<open>Free functions of the anonymous namespace\<close>

record FlexfecSender =
  fs_payload_type :: int
  fs_ssrc :: uint32_t
  fs_protected_media_ssrc :: uint32_t

definition MaybeCreateFlexfecSender :: "Config \<Rightarrow> error + (log_line list \<times> FlexfecSender option)" where
  "MaybeCreateFlexfecSender c =
     (if flexfec_payload_type c < 0 then Inr ([], None)
      else if \<not> flexfec_payload_type c \<le> 127 then Inl DCheckFailed
      else if flexfec_ssrc c = 0 then
        Inr ([(LS_WARNING, ''FlexFEC is enabled, but no FlexFEC SSRC given. Therefore disabling FlexFEC.'')], None)
      else if flexfec_protected_media_ssrcs c = [] then
        Inr ([(LS_WARNING, ''FlexFEC is enabled, but no protected media SSRC given. Therefore disabling FlexFEC.'')], None)
      else if length (flexfec_protected_media_ssrcs c) > 1 then
        Inr ([(LS_WARNING, ''The supplied FlexfecConfig contained multiple protected media streams, but our implementation currently only supports protecting a single media stream. To avoid confusion, disabling FlexFEC completely.'')], None)
      else Inr ([], Some \<lparr>fs_payload_type = flexfec_payload_type c,
                          fs_ssrc = flexfec_ssrc c,
                          fs_protected_media_ssrc = hd (flexfec_protected_media_ssrcs c)\<rparr>))"

datatype VideoCodecType = kVideoCodecVP8 | kVideoCodecVP9 | kVideoCodecH264 | kVideoCodecGeneric

text \<open>
  Modelled from the spec: \<^verbatim>\<open>PayloadStringToCodecType\<close> is declared outside the sources at
  hand. The spec says that of all payloads "only VP8/VP9 qualify" for skipping FEC
  packets and calls the others H.264-class; the names are compared as written.
\<close>

definition PayloadStringToCodecType :: "string \<Rightarrow> VideoCodecType" where
  "PayloadStringToCodecType name =
     (if name = ''VP8'' then kVideoCodecVP8
      else if name = ''VP9'' then kVideoCodecVP9
      else if name = ''H264'' then kVideoCodecH264
      else kVideoCodecGeneric)"

definition PayloadTypeSupportsSkippingFecPackets :: "string \<Rightarrow> bool" where
  "PayloadTypeSupportsSkippingFecPackets name =
     (let codecType = PayloadStringToCodecType name in
      if codecType = kVideoCodecVP8 \<or> codecType = kVideoCodecVP9 then True else False)"

text \<open>
  \<^verbatim>\<open>8 * overhead_bytes_per_packet * packets_per_second\<close> is computed in \<^verbatim>\<open>size_t\<close>: the
  \<^verbatim>\<open>int\<close> is sign-extended, the product is cut to 32 bits.
\<close>

definition CalculateOverheadRateBps :: "int32_t \<Rightarrow> size_t \<Rightarrow> uint32_t \<Rightarrow> uint32_t" where
  "CalculateOverheadRateBps packets_per_second overhead_bytes_per_packet max_overhead_bps =
     (let overhead_bps = (ucast (8 * overhead_bytes_per_packet * scast packets_per_second) :: uint32_t)
      in min overhead_bps max_overhead_bps)"

definition CalculatePacketRate :: "uint32_t \<Rightarrow> size_t \<Rightarrow> error + int32_t" where
  "CalculatePacketRate bitrate_bps packet_size_bytes =
     (let packet_size_bits = 8 * packet_size_bytes in
      if packet_size_bits = 0 then Inl DivisionByZero
      else Inr (ucast ((ucast bitrate_bps + packet_size_bits - 1) div packet_size_bits)))"

subsection \<open>The RTP modules, as far as this file configures them\<close>

datatype RtcpMode = kOff | kReducedSize | kCompound

record RtpRtcp =
  flexfec_sender_attached :: bool
  sending_status :: bool
  sending_media_status :: bool
  rtcp_status :: RtcpMode
  store_packets_status :: "(bool \<times> nat) option"
  ulpfec_config :: "(int \<times> int) option"
  max_rtp_packet_size :: "size_t option"
  header_extensions :: "(string \<times> int) list"
  module_ssrc :: "uint32_t option"
  module_rtx_ssrc :: "uint32_t option"
  rtx_send_payload_types :: "(int \<times> int) list"
  rtx_send_status :: bool

definition CreateRtpRtcpModules :: "Config \<Rightarrow> FlexfecSender option \<Rightarrow> error + RtpRtcp list" where
  "CreateRtpRtcpModules c flexfec_sender =
     (if \<not> length (ssrcs c) > 0 then Inl DCheckFailed
      else Inr (map (\<lambda>ssrc.
             \<lparr>flexfec_sender_attached =
                (flexfec_sender \<noteq> None \<and> ssrc \<in> set (flexfec_protected_media_ssrcs c)),
              sending_status = False,
              sending_media_status = False,
              rtcp_status = kCompound,
              store_packets_status = None,
              ulpfec_config = None,
              max_rtp_packet_size = None,
              header_extensions = [],
              module_ssrc = None,
              module_rtx_ssrc = None,
              rtx_send_payload_types = [],
              rtx_send_status = False\<rparr>) (ssrcs c)))"

subsection \<open>The watchdog task\<close>

record CheckEncoderActivityTask =
  activity :: int
  send_stream :: bool
  timed_out :: bool

datatype notification = EncoderTimedOut | EncoderActive

definition new_CheckEncoderActivityTask :: CheckEncoderActivityTask where
  "new_CheckEncoderActivityTask = \<lparr>activity = 0, send_stream = True, timed_out = False\<rparr>"

definition task_Stop :: "CheckEncoderActivityTask \<Rightarrow> CheckEncoderActivityTask" where
  "task_Stop t = t\<lparr>send_stream := False\<rparr>"

definition UpdateEncoderActivity :: "CheckEncoderActivityTask \<Rightarrow> CheckEncoderActivityTask" where
  "UpdateEncoderActivity t = t\<lparr>activity := 1\<rparr>"

text \<open>
  One tick, \<^verbatim>\<open>CheckEncoderActivityTask::Run\<close>, seen from the task: the value returned to the
  task queue (\<open>True\<close>: delete the task; \<open>False\<close>: it has posted itself again), the
  method of the stream it has called, if any, and the task afterwards.
\<close>

definition task_Run :: "CheckEncoderActivityTask \<Rightarrow> bool \<times> notification option \<times> CheckEncoderActivityTask" where
  "task_Run t =
     (if \<not> send_stream t then (True, None, t)
      else
        let (n, t1) =
          (if activity t = 0 then
             ((if \<not> timed_out t then Some EncoderTimedOut else None), t\<lparr>timed_out := True\<rparr>)
           else if timed_out t then (Some EncoderActive, t\<lparr>timed_out := False\<rparr>)
           else (None, t))
        in (False, n, t1\<lparr>activity := 0\<rparr>))"

subsection \<open>The stream object and its surroundings\<close>

record PacketFeedback =
  sequence_number :: uint16_t
  arrival_time_ms :: int

datatype closure =
    PostedOnPacketAdded uint32_t uint16_t
  | PostedOnPacketFeedbackVector "PacketFeedback list"

datatype call =
    AddObserver int uint32_t int bool
  | RemoveObserver
  | SendKeyFrame
  | EncoderOnBitrateUpdated uint32_t uint8_t int64_t
  | OnSetEncoderTargetRate uint32_t
  | SetProtectionMethod bool bool

text \<open>
  Modelled from the spec: \<^verbatim>\<open>PayloadRouter\<close> is defined outside the sources at hand. Of it
  the model keeps the Stopped/Started flag of the spec's state machine, the field
  \<open>payload_router_active\<close>, which \<^verbatim>\<open>IsActive\<close> reads and \<^verbatim>\<open>SetActive\<close> writes.

  \<open>tasks\<close> is the store of watchdog tasks posted on the worker queue, addressed by
  index (\<open>None\<close>: deleted by the queue); \<open>check_encoder_activity_task\<close> points into it.
  \<open>posted\<close> holds the closures that calls from a foreign thread have posted to the
  worker queue. The track id and the bitrate priority that \<^verbatim>\<open>AddObserver\<close> passes
  through are left out of the trace.
\<close>

record VideoSendStreamImpl =
  send_side_bwe_with_overhead :: bool
  config :: Config
  check_encoder_activity_task :: "nat option"
  flexfec_sender :: "FlexfecSender option"
  max_padding_bitrate :: int
  encoder_min_bitrate_bps :: int
  encoder_max_bitrate_bps :: uint32_t
  encoder_target_rate_bps :: uint32_t
  rtp_rtcp_modules :: "RtpRtcp list"
  payload_router_active :: bool
  overhead_bytes_per_packet :: size_t
  transport_overhead_bytes_per_packet :: size_t
  feedback_packet_seq_num_set :: "uint16_t set"
  loss_mask_vector :: "bool list"
  tasks :: "CheckEncoderActivityTask option list"
  posted :: "closure list"
  calls :: "call list"
  rtc_log :: "log_line list"

definition IsActive :: "VideoSendStreamImpl \<Rightarrow> bool" where
  "IsActive s = payload_router_active s"

definition SetActive :: "bool \<Rightarrow> VideoSendStreamImpl \<Rightarrow> VideoSendStreamImpl" where
  "SetActive a s = s\<lparr>payload_router_active := a\<rparr>"

definition do_call :: "call \<Rightarrow> VideoSendStreamImpl \<Rightarrow> VideoSendStreamImpl" where
  "do_call c s = s\<lparr>calls := calls s @ [c]\<rparr>"

definition RTC_LOG :: "LoggingSeverity \<Rightarrow> string \<Rightarrow> VideoSendStreamImpl \<Rightarrow> VideoSendStreamImpl" where
  "RTC_LOG sev msg s = s\<lparr>rtc_log := rtc_log s @ [(sev, msg)]\<rparr>"

subsection \<open>Lifecycle: Start, Stop and the watchdog's notifications\<close>

definition StartupVideoSendStream :: "VideoSendStreamImpl \<Rightarrow> error + VideoSendStreamImpl" where
  "StartupVideoSendStream s =
     (let s1 = do_call (AddObserver (encoder_min_bitrate_bps s) (encoder_max_bitrate_bps s)
                          (max_padding_bitrate s) (\<not> suspend_below_min_bitrate (config s))) s
      in if check_encoder_activity_task s1 \<noteq> None then Inl DCheckFailed
         else
           let s2 = s1\<lparr>check_encoder_activity_task := Some (length (tasks s1)),
                       tasks := tasks s1 @ [Some new_CheckEncoderActivityTask]\<rparr>
           in Inr (do_call SendKeyFrame s2))"

definition Start :: "VideoSendStreamImpl \<Rightarrow> error + VideoSendStreamImpl" where
  "Start s =
     (let s0 = RTC_LOG LS_INFO ''VideoSendStream::Start'' s in
      if IsActive s0 then Inr s0
      else StartupVideoSendStream (SetActive True s0))"

definition StopVideoSendStream :: "VideoSendStreamImpl \<Rightarrow> error + VideoSendStreamImpl" where
  "StopVideoSendStream s =
     (let s1 = do_call RemoveObserver s in
      case check_encoder_activity_task s1 of
        None \<Rightarrow> Inl NullDereference
      | Some a \<Rightarrow>
          if \<not> a < length (tasks s1) then Inl NullDereference
          else (case tasks s1 ! a of
              None \<Rightarrow> Inl NullDereference
            | Some t \<Rightarrow>
                let s2 = s1\<lparr>tasks := (tasks s1)[a := Some (task_Stop t)],
                            check_encoder_activity_task := None\<rparr>;
                    s3 = do_call (EncoderOnBitrateUpdated 0 0 0) s2
                in Inr (do_call (OnSetEncoderTargetRate 0) s3)))"

definition Stop :: "VideoSendStreamImpl \<Rightarrow> error + VideoSendStreamImpl" where
  "Stop s =
     (let s0 = RTC_LOG LS_INFO ''VideoSendStream::Stop'' s in
      if \<not> IsActive s0 then Inr s0
      else StopVideoSendStream (SetActive False s0))"

definition SignalEncoderTimedOut :: "VideoSendStreamImpl \<Rightarrow> VideoSendStreamImpl" where
  "SignalEncoderTimedOut s =
     (if encoder_target_rate_bps s > 0 then
        do_call RemoveObserver (RTC_LOG LS_INFO ''SignalEncoderTimedOut, Encoder timed out.'' s)
      else s)"

definition SignalEncoderActive :: "VideoSendStreamImpl \<Rightarrow> VideoSendStreamImpl" where
  "SignalEncoderActive s =
     do_call (AddObserver (encoder_min_bitrate_bps s) (encoder_max_bitrate_bps s)
                (max_padding_bitrate s) (\<not> suspend_below_min_bitrate (config s)))
       (RTC_LOG LS_INFO ''SignalEncoderActive, Encoder is active.'' s)"

text \<open>
  The part of \<^verbatim>\<open>OnEncodedImage\<close> that pings the watchdog: under the lock, if the stream
  holds a task, \<^verbatim>\<open>UpdateEncoderActivity\<close> is called on it.
\<close>

definition OnEncodedImage_activity :: "VideoSendStreamImpl \<Rightarrow> error + VideoSendStreamImpl" where
  "OnEncodedImage_activity s =
     (case check_encoder_activity_task s of
        None \<Rightarrow> Inr s
      | Some a \<Rightarrow>
          if \<not> a < length (tasks s) then Inl NullDereference
          else (case tasks s ! a of
              None \<Rightarrow> Inl NullDereference
            | Some t \<Rightarrow> Inr (s\<lparr>tasks := (tasks s)[a := Some (UpdateEncoderActivity t)]\<rparr>)))"

text \<open>
  The worker queue runs the task stored at address \<open>a\<close>: \<^verbatim>\<open>Run\<close> with its calls into the
  stream carried out. A task that returns \<open>True\<close> is deleted by the queue.
\<close>

definition Run :: "nat \<Rightarrow> VideoSendStreamImpl \<Rightarrow> error + (bool \<times> VideoSendStreamImpl)" where
  "Run a s =
     (if \<not> a < length (tasks s) then Inl NullDereference
      else (case tasks s ! a of
          None \<Rightarrow> Inl NullDereference
        | Some t \<Rightarrow>
            (case task_Run t of (del, n, t') \<Rightarrow>
               let s1 = (case n of
                           None \<Rightarrow> s
                         | Some EncoderTimedOut \<Rightarrow> SignalEncoderTimedOut s
                         | Some EncoderActive \<Rightarrow> SignalEncoderActive s)
               in Inr (del, s1\<lparr>tasks := (tasks s1)[a := (if del then None else Some t')]\<rparr>))))"

subsection \<open>The bitrate feedback loop\<close>

text \<open>
  The local \<^verbatim>\<open>encoder_overhead_rate_bps\<close> of \<^verbatim>\<open>OnBitrateUpdated\<close>, given the rate
  \<open>target\<close> that the FEC controller has returned.
\<close>

definition encoder_overhead_rate :: "VideoSendStreamImpl \<Rightarrow> uint32_t \<Rightarrow> uint32_t \<Rightarrow> error + uint32_t" where
  "encoder_overhead_rate s bitrate_bps target =
     (if send_side_bwe_with_overhead s then
        (case CalculatePacketRate target
                (max_packet_size (config s) + transport_overhead_bytes_per_packet s
                   - overhead_bytes_per_packet s) of
           Inl e \<Rightarrow> Inl e
         | Inr packet_rate \<Rightarrow>
             Inr (CalculateOverheadRateBps packet_rate
                    (overhead_bytes_per_packet s + transport_overhead_bytes_per_packet s)
                    (bitrate_bps - target)))
      else Inr 0)"

text \<open>The local \<^verbatim>\<open>payload_bitrate_bps\<close>: the estimate net of the overhead.\<close>

definition payload_bitrate :: "VideoSendStreamImpl \<Rightarrow> uint32_t \<Rightarrow> error + uint32_t" where
  "payload_bitrate s bitrate_bps =
     (if send_side_bwe_with_overhead s then
        (case CalculatePacketRate bitrate_bps
                (max_packet_size (config s) + transport_overhead_bytes_per_packet s) of
           Inl e \<Rightarrow> Inl e
         | Inr packet_rate \<Rightarrow>
             Inr (bitrate_bps - CalculateOverheadRateBps packet_rate
                    (overhead_bytes_per_packet s + transport_overhead_bytes_per_packet s)
                    bitrate_bps))
      else Inr bitrate_bps)"

definition OnBitrateUpdated ::
  "environment \<Rightarrow> uint32_t \<Rightarrow> uint8_t \<Rightarrow> int64_t \<Rightarrow> int64_t \<Rightarrow> VideoSendStreamImpl
     \<Rightarrow> error + (uint32_t \<times> VideoSendStreamImpl)" where
  "OnBitrateUpdated env bitrate_bps fraction_loss rtt probing_interval_ms s =
     (if \<not> IsActive s then Inl DCheckFailed
      else (case payload_bitrate s bitrate_bps of
          Inl e \<Rightarrow> Inl e
        | Inr payload_bitrate_bps \<Rightarrow>
            let s1 = s\<lparr>encoder_target_rate_bps :=
                         UpdateFecRates env payload_bitrate_bps (GetSendFrameRate env)
                           fraction_loss (loss_mask_vector s) rtt\<rparr>;
                s2 = s1\<lparr>loss_mask_vector := []\<rparr>
            in (case encoder_overhead_rate s2 bitrate_bps (encoder_target_rate_bps s2) of
                Inl e \<Rightarrow> Inl e
              | Inr encoder_overhead_rate_bps \<Rightarrow>
                  let protection_bitrate =
                        bitrate_bps - (encoder_target_rate_bps s2 + encoder_overhead_rate_bps);
                      s3 = s2\<lparr>encoder_target_rate_bps :=
                                min (encoder_max_bitrate_bps s2) (encoder_target_rate_bps s2)\<rparr>;
                      s4 = do_call (EncoderOnBitrateUpdated (encoder_target_rate_bps s3)
                                      fraction_loss rtt) s3;
                      s5 = do_call (OnSetEncoderTargetRate (encoder_target_rate_bps s4)) s4
                  in Inr (protection_bitrate, s5))))"

subsection \<open>Transport overhead\<close>

definition SetMaxRtpPacketSize :: "size_t \<Rightarrow> RtpRtcp \<Rightarrow> RtpRtcp" where
  "SetMaxRtpPacketSize n m = m\<lparr>max_rtp_packet_size := Some n\<rparr>"

definition SetTransportOverhead :: "size_t \<Rightarrow> VideoSendStreamImpl \<Rightarrow> VideoSendStreamImpl" where
  "SetTransportOverhead transport_overhead_per_packet s =
     (if transport_overhead_per_packet \<ge> kPathMTU then
        RTC_LOG LS_ERROR ''Transport overhead exceeds size of ethernet frame'' s
      else
        let s1 = s\<lparr>transport_overhead_bytes_per_packet := transport_overhead_per_packet\<rparr>;
            rtp_packet_size = min (max_packet_size (config s1))
                                (kPathMTU - transport_overhead_bytes_per_packet s1)
        in s1\<lparr>rtp_rtcp_modules := map (SetMaxRtpPacketSize rtp_packet_size) (rtp_rtcp_modules s1)\<rparr>)"

subsection \<open>The packet feedback tracker\<close>

definition OnPacketAdded :: "bool \<Rightarrow> uint32_t \<Rightarrow> uint16_t \<Rightarrow> VideoSendStreamImpl \<Rightarrow> VideoSendStreamImpl" where
  "OnPacketAdded is_current ssrc seq_num s =
     (if \<not> is_current then s\<lparr>posted := posted s @ [PostedOnPacketAdded ssrc seq_num]\<rparr>
      else if ssrc \<in> set (ssrcs (config s)) then
        let s1 = s\<lparr>feedback_packet_seq_num_set := insert seq_num (feedback_packet_seq_num_set s)\<rparr>
        in if card (feedback_packet_seq_num_set s1) > kSendSideSeqNumSetMaxSize then
             (RTC_LOG LS_WARNING ''Feedback packet sequence number set exceed it's max size', will get reset.'' s1)
               \<lparr>feedback_packet_seq_num_set := {}\<rparr>
           else s1
      else s)"

text \<open>
  One round of the loop of \<^verbatim>\<open>OnPacketFeedbackVector\<close>. The source declares
  \<^verbatim>\<open>auto it = set.find(seq) != set.end()\<close>: the comparison binds first, so \<open>it\<close> is the
  boolean "found", and \<^verbatim>\<open>erase(it)\<close> is the erase-by-key overload applied to that
  boolean converted to a sequence number.
\<close>

definition feedback_round :: "PacketFeedback \<Rightarrow> VideoSendStreamImpl \<Rightarrow> VideoSendStreamImpl" where
  "feedback_round packet s =
     (let it = (sequence_number packet \<in> feedback_packet_seq_num_set s) in
      if it then
        let lost = (arrival_time_ms packet = kNotReceived);
            s1 = s\<lparr>loss_mask_vector := loss_mask_vector s @ [lost]\<rparr>
        in s1\<lparr>feedback_packet_seq_num_set := feedback_packet_seq_num_set s1 - {of_bool it}\<rparr>
      else s)"

fun feedback_loop :: "PacketFeedback list \<Rightarrow> VideoSendStreamImpl \<Rightarrow> VideoSendStreamImpl" where
  "feedback_loop [] s = s"
| "feedback_loop (packet # rest) s = feedback_loop rest (feedback_round packet s)"

definition OnPacketFeedbackVector :: "bool \<Rightarrow> PacketFeedback list \<Rightarrow> VideoSendStreamImpl \<Rightarrow> VideoSendStreamImpl" where
  "OnPacketFeedbackVector is_current packet_feedback_vector s =
     (if \<not> is_current then
        s\<lparr>posted := posted s @ [PostedOnPacketFeedbackVector packet_feedback_vector]\<rparr>
      else feedback_loop packet_feedback_vector s)"

text \<open>The worker queue runs the closure at the head of \<open>posted\<close>.\<close>

definition run_posted :: "VideoSendStreamImpl \<Rightarrow> VideoSendStreamImpl" where
  "run_posted s =
     (case posted s of
        [] \<Rightarrow> s
      | PostedOnPacketAdded ssrc seq_num # rest \<Rightarrow> OnPacketAdded True ssrc seq_num (s\<lparr>posted := rest\<rparr>)
      | PostedOnPacketFeedbackVector v # rest \<Rightarrow> OnPacketFeedbackVector True v (s\<lparr>posted := rest\<rparr>))"

subsection \<open>The protection policy\<close>

text \<open>
  The locals \<^verbatim>\<open>red_payload_type\<close> and \<^verbatim>\<open>ulpfec_payload_type\<close> of
  \<^verbatim>\<open>ConfigureProtection\<close>, threaded with the stream (for the log) through the four
  blocks of the function in the order of the source.
\<close>

type_synonym protection_vars = "int \<times> int \<times> VideoSendStreamImpl"

definition IsRedEnabled :: "int \<Rightarrow> bool" where
  "IsRedEnabled red = (red \<ge> 0)"

definition IsUlpfecEnabled :: "int \<Rightarrow> bool" where
  "IsUlpfecEnabled ulpfec = (ulpfec \<ge> 0)"

definition rule_experiment :: "environment \<Rightarrow> protection_vars \<Rightarrow> protection_vars" where
  "rule_experiment env = (\<lambda>(red, ulpfec, s).
     if field_trial_IsEnabled env ''WebRTC-DisableUlpFecExperiment'' then
       (red, - 1, RTC_LOG LS_INFO ''Experiment to disable sending ULPFEC is enabled.'' s)
     else (red, ulpfec, s))"

definition rule_flexfec :: "bool \<Rightarrow> protection_vars \<Rightarrow> protection_vars" where
  "rule_flexfec flexfec_enabled = (\<lambda>(red, ulpfec, s).
     if flexfec_enabled then
       let (red1, s1) =
             (if IsRedEnabled red then
                (- 1, RTC_LOG LS_INFO ''Both FlexFEC and RED are configured. Disabling RED.'' s)
              else (red, s));
           (ulpfec1, s2) =
             (if IsUlpfecEnabled ulpfec then
                (- 1, RTC_LOG LS_INFO ''Both FlexFEC and ULPFEC are configured. Disabling ULPFEC.'' s1)
              else (ulpfec, s1))
       in (red1, ulpfec1, s2)
     else (red, ulpfec, s))"

definition rule_nack :: "bool \<Rightarrow> protection_vars \<Rightarrow> protection_vars" where
  "rule_nack nack_enabled = (\<lambda>(red, ulpfec, s).
     if nack_enabled \<and> IsUlpfecEnabled ulpfec \<and>
        \<not> PayloadTypeSupportsSkippingFecPackets (payload_name (config s)) then
       (red, - 1, RTC_LOG LS_WARNING ''Transmitting payload type without picture ID using NACK+ULPFEC is a waste of bandwidth since ULPFEC packets also have to be retransmitted. Disabling ULPFEC.'' s)
     else (red, ulpfec, s))"

definition rule_verify :: "protection_vars \<Rightarrow> error + protection_vars" where
  "rule_verify = (\<lambda>(red, ulpfec, s).
     if IsRedEnabled red \<and> \<not> (red \<ge> 0 \<and> red \<le> 127) then Inl DCheckFailed
     else if IsUlpfecEnabled ulpfec then
       (if \<not> (ulpfec \<ge> 0 \<and> ulpfec \<le> 127) then Inl DCheckFailed
        else if \<not> IsRedEnabled red then
          Inr (red, - 1, RTC_LOG LS_WARNING ''ULPFEC is enabled but RED is disabled. Disabling ULPFEC.'' s)
        else Inr (red, ulpfec, s))
     else Inr (red, ulpfec, s))"

definition protection_rules :: "environment \<Rightarrow> VideoSendStreamImpl \<Rightarrow> error + protection_vars" where
  "protection_rules env s =
     (let flexfec_enabled = (flexfec_sender s \<noteq> None);
          nack_enabled = (nack_rtp_history_ms (config s) > 0);
          red_payload_type = red_payload_type (config s);
          ulpfec_payload_type = ulpfec_payload_type (config s)
      in rule_verify (rule_nack nack_enabled (rule_flexfec flexfec_enabled
           (rule_experiment env (red_payload_type, ulpfec_payload_type, s)))))"

definition SetStorePacketsStatus :: "bool \<Rightarrow> nat \<Rightarrow> RtpRtcp \<Rightarrow> RtpRtcp" where
  "SetStorePacketsStatus enable number_to_store m = m\<lparr>store_packets_status := Some (enable, number_to_store)\<rparr>"

definition SetUlpfecConfig :: "int \<Rightarrow> int \<Rightarrow> RtpRtcp \<Rightarrow> RtpRtcp" where
  "SetUlpfecConfig red ulpfec m = m\<lparr>ulpfec_config := Some (red, ulpfec)\<rparr>"

definition ConfigureProtection :: "environment \<Rightarrow> VideoSendStreamImpl \<Rightarrow> error + VideoSendStreamImpl" where
  "ConfigureProtection env s =
     (case protection_rules env s of
        Inl e \<Rightarrow> Inl e
      | Inr (red, ulpfec, s1) \<Rightarrow>
          let s2 = s1\<lparr>rtp_rtcp_modules :=
                       map (\<lambda>rtp_rtcp. SetUlpfecConfig red ulpfec
                              (SetStorePacketsStatus True kMinSendSidePacketHistorySize rtp_rtcp))
                         (rtp_rtcp_modules s1)\<rparr>
          in Inr (do_call (SetProtectionMethod (flexfec_sender s \<noteq> None \<or> IsUlpfecEnabled ulpfec)
                             (nack_rtp_history_ms (config s) > 0)) s2))"

text \<open>
  The policy as the spec's data model writes it: a payload type is present when it is
  enabled, that is, not negative.
\<close>

record ProtectionPolicy =
  policy_flexfec :: bool
  policy_red :: "int option"
  policy_ulpfec :: "int option"
  policy_nack :: bool

definition policy_of :: "bool \<Rightarrow> int \<Rightarrow> int \<Rightarrow> bool \<Rightarrow> ProtectionPolicy" where
  "policy_of flexfec_enabled red ulpfec nack_enabled =
     \<lparr>policy_flexfec = flexfec_enabled,
      policy_red = (if IsRedEnabled red then Some red else None),
      policy_ulpfec = (if IsUlpfecEnabled ulpfec then Some ulpfec else None),
      policy_nack = nack_enabled\<rparr>"

definition protection_policy :: "environment \<Rightarrow> VideoSendStreamImpl \<Rightarrow> error + ProtectionPolicy" where
  "protection_policy env s =
     (case protection_rules env s of
        Inl e \<Rightarrow> Inl e
      | Inr (red, ulpfec, s1) \<Rightarrow>
          Inr (policy_of (flexfec_sender s \<noteq> None) red ulpfec (nack_rtp_history_ms (config s) > 0)))"

subsection \<open>Header extensions and SSRCs\<close>

text \<open>
  The loop of the constructor that registers the configured header extensions: the
  identifier must lie in 1..14 and the extension be supported for video, and every
  module must answer 0. The extension type is identified with its URI.
\<close>

fun RegisterOnModules :: "environment \<Rightarrow> string \<Rightarrow> int \<Rightarrow> RtpRtcp list \<Rightarrow> error + RtpRtcp list" where
  "RegisterOnModules env extension id' [] = Inr []"
| "RegisterOnModules env extension id' (rtp_rtcp # rest) =
     (if RegisterSendRtpHeaderExtension env (header_extensions rtp_rtcp) extension id' \<noteq> 0
      then Inl CheckFailed
      else (case RegisterOnModules env extension id' rest of
              Inl e \<Rightarrow> Inl e
            | Inr rest' \<Rightarrow>
                Inr (rtp_rtcp\<lparr>header_extensions := header_extensions rtp_rtcp @ [(extension, id')]\<rparr>
                       # rest')))"

fun RegisterExtensions :: "environment \<Rightarrow> RtpExtension list \<Rightarrow> RtpRtcp list \<Rightarrow> error + RtpRtcp list" where
  "RegisterExtensions env [] modules = Inr modules"
| "RegisterExtensions env (x # rest) modules =
     (if \<not> ext_id x \<ge> 1 then Inl DCheckFailed
      else if \<not> ext_id x \<le> 14 then Inl DCheckFailed
      else if \<not> IsSupportedForVideo env (ext_uri x) then Inl DCheckFailed
      else (case RegisterOnModules env (ext_uri x) (ext_id x) modules of
              Inl e \<Rightarrow> Inl e
            | Inr modules' \<Rightarrow> RegisterExtensions env rest modules'))"

text \<open>
  \<^verbatim>\<open>ConfigureSsrcs\<close>. A loop \<^verbatim>\<open>for i: rtp_rtcp_modules_[i]->Set...(ssrcs[i])\<close> is
  \<open>configure_by_index\<close>: an SSRC with no module at its index reads out of range.
  \<open>rtx_send_status\<close> records that \<^verbatim>\<open>SetRtxSendStatus\<close> has been called with the two RTX
  flags. Restoring the suspended RTP states is left out.
\<close>

fun configure_by_index ::
  "(uint32_t \<Rightarrow> RtpRtcp \<Rightarrow> RtpRtcp) \<Rightarrow> uint32_t list \<Rightarrow> RtpRtcp list \<Rightarrow> error + RtpRtcp list" where
  "configure_by_index f [] modules = Inr modules"
| "configure_by_index f (ssrc # rest) [] = Inl OutOfRange"
| "configure_by_index f (ssrc # rest) (rtp_rtcp # modules) =
     (case configure_by_index f rest modules of
        Inl e \<Rightarrow> Inl e
      | Inr modules' \<Rightarrow> Inr (f ssrc rtp_rtcp # modules'))"

definition SetSSRC :: "uint32_t \<Rightarrow> RtpRtcp \<Rightarrow> RtpRtcp" where
  "SetSSRC ssrc m = m\<lparr>module_ssrc := Some ssrc\<rparr>"

definition SetRtxSsrc :: "uint32_t \<Rightarrow> RtpRtcp \<Rightarrow> RtpRtcp" where
  "SetRtxSsrc ssrc m = m\<lparr>module_rtx_ssrc := Some ssrc\<rparr>"

definition SetRtxSendPayloadType :: "int \<Rightarrow> int \<Rightarrow> RtpRtcp \<Rightarrow> RtpRtcp" where
  "SetRtxSendPayloadType payload_type associated_payload_type m =
     m\<lparr>rtx_send_payload_types := rtx_send_payload_types m @ [(payload_type, associated_payload_type)]\<rparr>"

definition SetRtxSendStatus :: "RtpRtcp \<Rightarrow> RtpRtcp" where
  "SetRtxSendStatus m = m\<lparr>rtx_send_status := True\<rparr>"

definition ConfigureSsrcs :: "VideoSendStreamImpl \<Rightarrow> error + VideoSendStreamImpl" where
  "ConfigureSsrcs s =
     (let c = config s in
      case configure_by_index SetSSRC (ssrcs c) (rtp_rtcp_modules s) of
        Inl e \<Rightarrow> Inl e
      | Inr modules1 \<Rightarrow>
          if rtx_ssrcs c = [] then Inr (s\<lparr>rtp_rtcp_modules := modules1\<rparr>)
          else if length (rtx_ssrcs c) \<noteq> length (ssrcs c) then Inl DCheckFailed
          else (case configure_by_index SetRtxSsrc (rtx_ssrcs c) modules1 of
              Inl e \<Rightarrow> Inl e
            | Inr modules2 \<Rightarrow>
                if \<not> rtx_payload_type c \<ge> 0 then Inl DCheckFailed
                else
                  let modules3 =
                        map (\<lambda>rtp_rtcp. SetRtxSendStatus
                               (SetRtxSendPayloadType (rtx_payload_type c) (encoder_payload_type c)
                                  rtp_rtcp)) modules2;
                      modules4 =
                        (if red_payload_type c \<noteq> - 1 \<and> red_rtx_payload_type c \<noteq> - 1 then
                           map (SetRtxSendPayloadType (red_rtx_payload_type c) (red_payload_type c))
                             modules3
                         else modules3)
                  in Inr (s\<lparr>rtp_rtcp_modules := modules4\<rparr>)))"

subsection \<open>Construction\<close>

text \<open>
  The constructor of \<^verbatim>\<open>VideoSendStreamImpl\<close>, with every check it makes, in the order
  of the source: the member initialisers (which create the FlexFEC sender and the
  modules), the checks on the SSRC list and the maximum bitrate, the check that at most
  one ALR field trial is enabled, the registration of the header extensions,
  \<^verbatim>\<open>ConfigureProtection\<close>, \<^verbatim>\<open>ConfigureSsrcs\<close>, the packet size of every module, and the
  checks on the encoder and its payload type. Its calls on the transport, the packet
  router, the statistics proxy, the FEC controller's callback registration and the
  encoder, none of which can fail, and the line it logs with the printed
  configuration, are left out.
\<close>

definition new_VideoSendStreamImpl :: "environment \<Rightarrow> Config \<Rightarrow> int32_t \<Rightarrow> error + VideoSendStreamImpl" where
  "new_VideoSendStreamImpl env c initial_encoder_max_bitrate =
     (case MaybeCreateFlexfecSender c of
        Inl e \<Rightarrow> Inl e
      | Inr (lines, sender) \<Rightarrow>
          (case CreateRtpRtcpModules c sender of
             Inl e \<Rightarrow> Inl e
           | Inr modules \<Rightarrow>
               let s = \<lparr>send_side_bwe_with_overhead =
                          field_trial_IsEnabled env ''WebRTC-SendSideBwe-WithOverhead'',
                        config = c,
                        check_encoder_activity_task = None,
                        flexfec_sender = sender,
                        max_padding_bitrate = 0,
                        encoder_min_bitrate_bps = 0,
                        encoder_max_bitrate_bps = initial_encoder_max_bitrate,
                        encoder_target_rate_bps = 0,
                        rtp_rtcp_modules = modules,
                        payload_router_active = False,
                        overhead_bytes_per_packet = 0,
                        transport_overhead_bytes_per_packet = 0,
                        feedback_packet_seq_num_set = {},
                        loss_mask_vector = [],
                        tasks = [],
                        posted = [],
                        calls = [],
                        rtc_log = lines\<rparr>
               in if ssrcs c = [] then Inl DCheckFailed
                  else if \<not> encoder_max_bitrate_bps s > 0 then Inl DCheckFailed
                  else if \<not> MaxOneFieldTrialEnabled env then Inl CheckFailed
                  else (case RegisterExtensions env (extensions c) (rtp_rtcp_modules s) of
                      Inl e \<Rightarrow> Inl e
                    | Inr registered \<Rightarrow>
                        (case ConfigureProtection env (s\<lparr>rtp_rtcp_modules := registered\<rparr>) of
                           Inl e \<Rightarrow> Inl e
                         | Inr s1 \<Rightarrow>
                             (case ConfigureSsrcs s1 of
                                Inl e \<Rightarrow> Inl e
                              | Inr s2 \<Rightarrow>
                                  let s3 = s2\<lparr>rtp_rtcp_modules :=
                                                map (SetMaxRtpPacketSize (max_packet_size c))
                                                  (rtp_rtcp_modules s2)\<rparr>
                                  in if \<not> encoder_present c then Inl DCheckFailed
                                     else if \<not> encoder_payload_type c \<ge> 0 then Inl DCheckFailed
                                     else if \<not> encoder_payload_type c \<le> 127 then Inl DCheckFailed
                                     else Inr s3)))))"

subsection \<open>Runs of the watchdog\<close>

text \<open>
  A run of a watchdog task: the worker queue calls \<^verbatim>\<open>Run\<close> once per interval; each
  element of the list says whether the encoder has delivered a frame, and so called
  \<^verbatim>\<open>UpdateEncoderActivity\<close>, since the previous tick. The result lists the notifications
  in the order they were sent. A task that asks to be deleted is not run again.
\<close>

fun ticks :: "bool list \<Rightarrow> CheckEncoderActivityTask \<Rightarrow> notification list \<times> CheckEncoderActivityTask" where
  "ticks [] t = ([], t)"
| "ticks (ping # pings) t =
     (case task_Run (if ping then UpdateEncoderActivity t else t) of
        (del, n, t1) \<Rightarrow>
          if del then ([], t1)
          else (case ticks pings t1 of
                  (ns, t2) \<Rightarrow> ((case n of None \<Rightarrow> [] | Some x \<Rightarrow> [x]) @ ns, t2)))"

subsection \<open>The protection policy in the words of the specification\<close>

text \<open>
  The spec lists the policy as rules over optional payload types, applied once each, in
  this order: the disable-ULPFEC override, FlexFEC, NACK without a picture id, ULPFEC
  without RED.
\<close>

type_synonym spec_types = "int option \<times> int option"

definition spec_rule_override :: "bool \<Rightarrow> spec_types \<Rightarrow> spec_types" where
  "spec_rule_override override = (\<lambda>(red, ulpfec). if override then (red, None) else (red, ulpfec))"

definition spec_rule_flexfec :: "bool \<Rightarrow> spec_types \<Rightarrow> spec_types" where
  "spec_rule_flexfec flexfec_enabled = (\<lambda>(red, ulpfec). if flexfec_enabled then (None, None) else (red, ulpfec))"

definition spec_rule_nack :: "bool \<Rightarrow> string \<Rightarrow> spec_types \<Rightarrow> spec_types" where
  "spec_rule_nack nack_enabled name = (\<lambda>(red, ulpfec).
     if nack_enabled \<and> ulpfec \<noteq> None \<and> name \<noteq> ''VP8'' \<and> name \<noteq> ''VP9'' then (red, None)
     else (red, ulpfec))"

definition spec_rule_red :: "spec_types \<Rightarrow> spec_types" where
  "spec_rule_red = (\<lambda>(red, ulpfec). if ulpfec \<noteq> None \<and> red = None then (red, None) else (red, ulpfec))"

definition configured :: "int \<Rightarrow> int option" where
  "configured payload_type = (if payload_type \<ge> 0 then Some payload_type else None)"

definition spec_policy :: "bool \<Rightarrow> bool \<Rightarrow> bool \<Rightarrow> string \<Rightarrow> int \<Rightarrow> int \<Rightarrow> spec_types" where
  "spec_policy override flexfec_enabled nack_enabled name red ulpfec =
     spec_rule_red (spec_rule_nack nack_enabled name (spec_rule_flexfec flexfec_enabled
       (spec_rule_override override (configured red, configured ulpfec))))"

text \<open>
  What makes the order observable. Each rule that disables a payload type says so in
  the log, and it is evaluated once, on the payload types the rules before it have
  left: \<open>spec_fired\<close> lists the rules that fire, in order. The range check of the
  payload types comes after the NACK rule and before the RED rule, on what is still
  enabled there: \<open>spec_check_fails\<close>.
\<close>

datatype rule = OverrideRule | FlexfecRedRule | FlexfecUlpfecRule | NackRule | RedCarrierRule

definition rule_message :: "rule \<Rightarrow> log_line" where
  "rule_message r =
     (case r of
        OverrideRule \<Rightarrow> (LS_INFO, ''Experiment to disable sending ULPFEC is enabled.'')
      | FlexfecRedRule \<Rightarrow> (LS_INFO, ''Both FlexFEC and RED are configured. Disabling RED.'')
      | FlexfecUlpfecRule \<Rightarrow> (LS_INFO, ''Both FlexFEC and ULPFEC are configured. Disabling ULPFEC.'')
      | NackRule \<Rightarrow> (LS_WARNING, ''Transmitting payload type without picture ID using NACK+ULPFEC is a waste of bandwidth since ULPFEC packets also have to be retransmitted. Disabling ULPFEC.'')
      | RedCarrierRule \<Rightarrow> (LS_WARNING, ''ULPFEC is enabled but RED is disabled. Disabling ULPFEC.''))"

definition spec_fired :: "bool \<Rightarrow> bool \<Rightarrow> bool \<Rightarrow> string \<Rightarrow> int \<Rightarrow> int \<Rightarrow> rule list" where
  "spec_fired override flexfec_enabled nack_enabled name red ulpfec =
     (let t0 = (configured red, configured ulpfec);
          t1 = spec_rule_override override t0;
          t2 = spec_rule_flexfec flexfec_enabled t1;
          t3 = spec_rule_nack nack_enabled name t2;
          t4 = spec_rule_red t3
      in (if override then [OverrideRule] else [])
         @ (if flexfec_enabled \<and> fst t1 \<noteq> None then [FlexfecRedRule] else [])
         @ (if flexfec_enabled \<and> snd t1 \<noteq> None then [FlexfecUlpfecRule] else [])
         @ (if t3 \<noteq> t2 then [NackRule] else [])
         @ (if t4 \<noteq> t3 then [RedCarrierRule] else []))"

definition out_of_range :: "int option \<Rightarrow> bool" where
  "out_of_range payload_type = (case payload_type of None \<Rightarrow> False | Some pt \<Rightarrow> pt > 127)"

definition spec_check_fails :: "bool \<Rightarrow> bool \<Rightarrow> bool \<Rightarrow> string \<Rightarrow> int \<Rightarrow> int \<Rightarrow> bool" where
  "spec_check_fails override flexfec_enabled nack_enabled name red ulpfec =
     (let t3 = spec_rule_nack nack_enabled name (spec_rule_flexfec flexfec_enabled
                 (spec_rule_override override (configured red, configured ulpfec)))
      in out_of_range (fst t3) \<or> out_of_range (snd t3))"

subsection \<open>A concrete stream\<close>

text \<open>
  The configuration of the spec's scenario: one media SSRC, no RTX, no FlexFEC, ULPFEC
  payload type 100, RED payload type 101, a NACK history of 1000 ms, VP8; what the
  scenario leaves open is no header extension, an encoder with payload type 96 and a
  maximum packet size of 1200. In \<open>scenario_env\<close> no field trial is enabled and the
  FEC controller answers 800000.
  \<open>scenario_stream\<close> is the stream the constructor builds from them with a maximum
  bitrate of 2000000, \<open>scenario_started\<close> the same stream after \<^verbatim>\<open>Start\<close>.
\<close>

definition scenario_config :: Config where
  "scenario_config =
     \<lparr>ssrcs = [1001], rtx_ssrcs = [], rtx_payload_type = - 1, extensions = [],
      flexfec_payload_type = - 1, flexfec_ssrc = 0,
      flexfec_protected_media_ssrcs = [], red_payload_type = 101, ulpfec_payload_type = 100,
      red_rtx_payload_type = - 1,
      nack_rtp_history_ms = 1000, max_packet_size = 1200, payload_name = ''VP8'',
      encoder_payload_type = 96, encoder_present = True,
      suspend_below_min_bitrate = False\<rparr>"

definition scenario_env :: environment where
  "scenario_env =
     \<lparr>field_trial_IsEnabled = (\<lambda>name. False),
      UpdateFecRates = (\<lambda>payload_bitrate_bps frame_rate fraction_loss loss_mask rtt. 800000),
      GetSendFrameRate = 30,
      MaxOneFieldTrialEnabled = True,
      IsSupportedForVideo = (\<lambda>uri. True),
      RegisterSendRtpHeaderExtension = (\<lambda>registered uri id'. 0)\<rparr>"

definition scenario_stream :: VideoSendStreamImpl where
  "scenario_stream =
     \<lparr>send_side_bwe_with_overhead = False,
      config = scenario_config,
      check_encoder_activity_task = None,
      flexfec_sender = None,
      max_padding_bitrate = 0,
      encoder_min_bitrate_bps = 0,
      encoder_max_bitrate_bps = 2000000,
      encoder_target_rate_bps = 0,
      rtp_rtcp_modules =
        [\<lparr>flexfec_sender_attached = False, sending_status = False,
          sending_media_status = False, rtcp_status = kCompound,
          store_packets_status = Some (True, 600), ulpfec_config = Some (101, 100),
          max_rtp_packet_size = Some 1200, header_extensions = [],
          module_ssrc = Some 1001, module_rtx_ssrc = None,
          rtx_send_payload_types = [], rtx_send_status = False\<rparr>],
      payload_router_active = False,
      overhead_bytes_per_packet = 0,
      transport_overhead_bytes_per_packet = 0,
      feedback_packet_seq_num_set = {},
      loss_mask_vector = [],
      tasks = [],
      posted = [],
      calls = [SetProtectionMethod True True],
      rtc_log = []\<rparr>"

definition scenario_started :: VideoSendStreamImpl where
  "scenario_started =
     scenario_stream
       \<lparr>check_encoder_activity_task := Some 0,
        payload_router_active := True,
        tasks := [Some new_CheckEncoderActivityTask],
        calls := [SetProtectionMethod True True, AddObserver 0 2000000 0 True, SendKeyFrame],
        rtc_log := [(LS_INFO, ''VideoSendStream::Start'')]\<rparr>"

text \<open>
  Two more environments: in \<open>generous_env\<close> the FEC controller answers 3000000, more
  than the stream's maximum bitrate; in \<open>experiment_env\<close> the field trial that
  disables ULPFEC is enabled.
\<close>

definition generous_env :: environment where
  "generous_env =
     scenario_env\<lparr>UpdateFecRates := (\<lambda>payload_bitrate_bps frame_rate fraction_loss loss_mask rtt. 3000000)\<rparr>"

definition experiment_env :: environment where
  "experiment_env =
     scenario_env\<lparr>field_trial_IsEnabled := (\<lambda>name. name = ''WebRTC-DisableUlpFecExperiment'')\<rparr>"

section \<open>Properties\<close>

subsection \<open>The concrete stream is the one the code builds\<close>

lemma scenario_constructed:
  "new_VideoSendStreamImpl scenario_env scenario_config 2000000 = Inr scenario_stream"
  by (simp add: new_VideoSendStreamImpl_def MaybeCreateFlexfecSender_def CreateRtpRtcpModules_def
      ConfigureProtection_def protection_rules_def rule_verify_def rule_nack_def rule_flexfec_def
      rule_experiment_def IsRedEnabled_def IsUlpfecEnabled_def PayloadTypeSupportsSkippingFecPackets_def
      PayloadStringToCodecType_def SetUlpfecConfig_def SetStorePacketsStatus_def SetMaxRtpPacketSize_def
      ConfigureSsrcs_def SetSSRC_def
      kMinSendSidePacketHistorySize_def do_call_def scenario_env_def scenario_config_def
      scenario_stream_def Let_def)

lemma scenario_Start: "Start scenario_stream = Inr scenario_started"
  by (simp add: Start_def StartupVideoSendStream_def IsActive_def SetActive_def RTC_LOG_def
      do_call_def scenario_stream_def scenario_started_def scenario_config_def Let_def)

subsection \<open>Facts shared by the lifecycle proofs\<close>

lemma StartupVideoSendStream_active:
  "StartupVideoSendStream s = Inr s' \<Longrightarrow> payload_router_active s' = payload_router_active s"
  by (auto simp: StartupVideoSendStream_def do_call_def Let_def split: if_splits)

lemma Start_active: "Start s = Inr s' \<Longrightarrow> IsActive s'"
  by (auto simp: Start_def IsActive_def SetActive_def RTC_LOG_def Let_def
      dest!: StartupVideoSendStream_active split: if_splits)

lemma ConfigureProtection_fields:
  assumes "ConfigureProtection env s = Inr s'"
  shows "payload_router_active s' = payload_router_active s"
    and "encoder_target_rate_bps s' = encoder_target_rate_bps s"
    and "check_encoder_activity_task s' = check_encoder_activity_task s"
  using assms
  by (auto simp: ConfigureProtection_def do_call_def Let_def
      protection_rules_def rule_verify_def rule_nack_def rule_flexfec_def rule_experiment_def RTC_LOG_def
      split: sum.splits if_splits prod.splits)

lemma ConfigureSsrcs_modules_only:
  assumes "ConfigureSsrcs s = Inr s'"
  shows "\<exists>modules. s' = s\<lparr>rtp_rtcp_modules := modules\<rparr>"
  using assms
  by (auto simp: ConfigureSsrcs_def Let_def split: sum.splits if_splits)

lemma new_VideoSendStreamImpl_fields:
  assumes "new_VideoSendStreamImpl env c m = Inr s"
  shows "\<not> IsActive s" and "encoder_target_rate_bps s = 0" and "check_encoder_activity_task s = None"
proof -
  from assms obtain s0 s1 s2 where p: "ConfigureProtection env s0 = Inr s1"
    and i: "\<not> payload_router_active s0 \<and> encoder_target_rate_bps s0 = 0
            \<and> check_encoder_activity_task s0 = None"
    and c: "ConfigureSsrcs s1 = Inr s2"
    and e: "s = s2\<lparr>rtp_rtcp_modules := map (SetMaxRtpPacketSize (max_packet_size c)) (rtp_rtcp_modules s2)\<rparr>"
    by (auto simp: new_VideoSendStreamImpl_def Let_def split: sum.splits if_splits prod.splits)
  from ConfigureSsrcs_modules_only [OF c] obtain modules where
    m: "s2 = s1\<lparr>rtp_rtcp_modules := modules\<rparr>" by blast
  show "\<not> IsActive s" and "encoder_target_rate_bps s = 0" and "check_encoder_activity_task s = None"
    using ConfigureProtection_fields [OF p] i by (simp_all add: e m IsActive_def)
qed

subsection \<open>Transport overhead\<close>

lemma SetTransportOverhead_rejected:
  "n \<ge> kPathMTU \<Longrightarrow> SetTransportOverhead n s =
     s\<lparr>rtc_log := rtc_log s @ [(LS_ERROR, ''Transport overhead exceeds size of ethernet frame'')]\<rparr>"
  by (simp add: SetTransportOverhead_def RTC_LOG_def)

lemma SetTransportOverhead_accepted:
  assumes "n < kPathMTU"
  shows "transport_overhead_bytes_per_packet (SetTransportOverhead n s) = n"
    and "length (rtp_rtcp_modules (SetTransportOverhead n s)) = length (rtp_rtcp_modules s)"
    and "\<forall>m \<in> set (rtp_rtcp_modules (SetTransportOverhead n s)).
           max_rtp_packet_size m = Some (min (max_packet_size (config s)) (kPathMTU - n))"
    and "unat (kPathMTU - n) = 1500 - unat n"
proof -
  from assms have not_ge: "\<not> kPathMTU \<le> n" by simp
  show "transport_overhead_bytes_per_packet (SetTransportOverhead n s) = n"
    using not_ge by (simp add: SetTransportOverhead_def Let_def)
  show "length (rtp_rtcp_modules (SetTransportOverhead n s)) = length (rtp_rtcp_modules s)"
    using not_ge by (simp add: SetTransportOverhead_def Let_def)
  show "\<forall>m \<in> set (rtp_rtcp_modules (SetTransportOverhead n s)).
           max_rtp_packet_size m = Some (min (max_packet_size (config s)) (kPathMTU - n))"
    using not_ge by (simp add: SetTransportOverhead_def Let_def SetMaxRtpPacketSize_def)
  from assms have "n \<le> kPathMTU" by simp
  then have "unat (kPathMTU - n) = unat kPathMTU - unat n" by (rule unat_sub)
  then show "unat (kPathMTU - n) = 1500 - unat n" by (simp add: kPathMTU_def)
qed

text \<open>
  C8. \<^verbatim>\<open>SetTransportOverhead(n)\<close>: when \<open>n\<close> is at least the path MTU of 1500 bytes the
  call only logs an error, so the stored transport overhead and every module's maximum
  RTP packet size stay as they were; otherwise the stored overhead becomes \<open>n\<close> and
  every module's maximum RTP packet size is set to the smaller of the configured
  maximum packet size and \<open>1500 - n\<close>, a difference that does not wrap around.
\<close>

theorem SetTransportOverhead_bounds:
  "(n \<ge> kPathMTU \<longrightarrow>
      SetTransportOverhead n s =
        s\<lparr>rtc_log := rtc_log s @ [(LS_ERROR, ''Transport overhead exceeds size of ethernet frame'')]\<rparr>
      \<and> transport_overhead_bytes_per_packet (SetTransportOverhead n s) = transport_overhead_bytes_per_packet s
      \<and> rtp_rtcp_modules (SetTransportOverhead n s) = rtp_rtcp_modules s)
   \<and> (n < kPathMTU \<longrightarrow>
        transport_overhead_bytes_per_packet (SetTransportOverhead n s) = n
      \<and> length (rtp_rtcp_modules (SetTransportOverhead n s)) = length (rtp_rtcp_modules s)
      \<and> (\<forall>m \<in> set (rtp_rtcp_modules (SetTransportOverhead n s)).
           max_rtp_packet_size m = Some (min (max_packet_size (config s)) (kPathMTU - n)))
      \<and> unat (kPathMTU - n) = 1500 - unat n)"
proof (intro conjI impI)
  assume ge: "kPathMTU \<le> n"
  show "SetTransportOverhead n s =
        s\<lparr>rtc_log := rtc_log s @ [(LS_ERROR, ''Transport overhead exceeds size of ethernet frame'')]\<rparr>"
    using ge by (rule SetTransportOverhead_rejected)
  then show "transport_overhead_bytes_per_packet (SetTransportOverhead n s) = transport_overhead_bytes_per_packet s"
    and "rtp_rtcp_modules (SetTransportOverhead n s) = rtp_rtcp_modules s"
    by simp_all
next
  assume lt: "n < kPathMTU"
  show "transport_overhead_bytes_per_packet (SetTransportOverhead n s) = n"
    using lt by (rule SetTransportOverhead_accepted)
  show "length (rtp_rtcp_modules (SetTransportOverhead n s)) = length (rtp_rtcp_modules s)"
    using lt by (rule SetTransportOverhead_accepted)
  show "\<forall>m \<in> set (rtp_rtcp_modules (SetTransportOverhead n s)).
           max_rtp_packet_size m = Some (min (max_packet_size (config s)) (kPathMTU - n))"
    using lt by (rule SetTransportOverhead_accepted)
  show "unat (kPathMTU - n) = 1500 - unat n"
    using lt by (rule SetTransportOverhead_accepted)
qed


theorem SetTransportOverhead_bounds_witness:
  "kPathMTU \<le> (1500 :: size_t)
   \<and> rtp_rtcp_modules (SetTransportOverhead 1500 scenario_stream) = rtp_rtcp_modules scenario_stream
   \<and> transport_overhead_bytes_per_packet (SetTransportOverhead 1500 scenario_stream) = 0
   \<and> (400 :: size_t) < kPathMTU
   \<and> transport_overhead_bytes_per_packet (SetTransportOverhead 400 scenario_stream) = 400
   \<and> length (rtp_rtcp_modules (SetTransportOverhead 400 scenario_stream)) = 1
   \<and> list_all (\<lambda>m. max_rtp_packet_size m = Some 1100)
         (rtp_rtcp_modules (SetTransportOverhead 400 scenario_stream))"
proof -
  have l: "length (rtp_rtcp_modules scenario_stream) = 1"
    by (simp add: scenario_stream_def)
  have ge: "kPathMTU \<le> (1500 :: size_t)" by (simp add: kPathMTU_def)
  have lt: "(400 :: size_t) < kPathMTU" by (simp add: kPathMTU_def)
  have m: "min (max_packet_size (config scenario_stream)) (kPathMTU - 400) = 1100"
    by (simp add: scenario_stream_def scenario_config_def kPathMTU_def)
  have z: "transport_overhead_bytes_per_packet scenario_stream = 0"
    by (simp add: scenario_stream_def)
  show ?thesis
    using ge lt SetTransportOverhead_bounds [of 1500 scenario_stream]
      SetTransportOverhead_bounds [of 400 scenario_stream]
    by (simp add: m z l list_all_iff)
qed

subsection \<open>The encoder timeout signal\<close>

text \<open>
  C10. \<^verbatim>\<open>SignalEncoderTimedOut\<close> removes the stream from the bandwidth allocator exactly
  when the stored encoder target rate is positive; with a target rate of zero it
  changes nothing. The tick of a live watchdog that has seen no activity and has not
  timed out before is the caller, and a stream that has been constructed and started,
  with no bitrate update since, has a target rate of zero.
\<close>

theorem SignalEncoderTimedOut_gate:
  "(encoder_target_rate_bps s > 0 \<longrightarrow>
      SignalEncoderTimedOut s =
        s\<lparr>rtc_log := rtc_log s @ [(LS_INFO, ''SignalEncoderTimedOut, Encoder timed out.'')],
          calls := calls s @ [RemoveObserver]\<rparr>)
   \<and> (encoder_target_rate_bps s = 0 \<longrightarrow> SignalEncoderTimedOut s = s)
   \<and> (a < length (tasks s) \<and> tasks s ! a = Some t \<and> send_stream t \<and> activity t = 0 \<and> \<not> timed_out t \<longrightarrow>
        Run a s = Inr (False, (SignalEncoderTimedOut s)
                         \<lparr>tasks := (tasks (SignalEncoderTimedOut s))[a := Some (t\<lparr>timed_out := True, activity := 0\<rparr>)]\<rparr>))
   \<and> (new_VideoSendStreamImpl env c m = Inr s0 \<and> Start s0 = Inr s \<longrightarrow> encoder_target_rate_bps s = 0)"
proof (intro conjI impI)
  show "SignalEncoderTimedOut s =
        s\<lparr>rtc_log := rtc_log s @ [(LS_INFO, ''SignalEncoderTimedOut, Encoder timed out.'')],
          calls := calls s @ [RemoveObserver]\<rparr>"
    if "encoder_target_rate_bps s > 0"
    using that by (simp add: SignalEncoderTimedOut_def do_call_def RTC_LOG_def)
  show "SignalEncoderTimedOut s = s" if "encoder_target_rate_bps s = 0"
    using that by (simp add: SignalEncoderTimedOut_def)
  show "Run a s = Inr (False, (SignalEncoderTimedOut s)
                         \<lparr>tasks := (tasks (SignalEncoderTimedOut s))[a := Some (t\<lparr>timed_out := True, activity := 0\<rparr>)]\<rparr>)"
    if "a < length (tasks s) \<and> tasks s ! a = Some t \<and> send_stream t \<and> activity t = 0 \<and> \<not> timed_out t"
    using that by (simp add: Run_def task_Run_def Let_def)
  show "encoder_target_rate_bps s = 0"
    if "new_VideoSendStreamImpl env c m = Inr s0 \<and> Start s0 = Inr s"
  proof -
    from that have "encoder_target_rate_bps s0 = 0"
      using new_VideoSendStreamImpl_fields(2) by blast
    moreover from that have "encoder_target_rate_bps s = encoder_target_rate_bps s0"
      by (auto simp: Start_def StartupVideoSendStream_def SetActive_def RTC_LOG_def do_call_def Let_def
          split: if_splits)
    ultimately show ?thesis by simp
  qed
qed

theorem SignalEncoderTimedOut_gate_witness:
  "encoder_target_rate_bps scenario_started = 0
   \<and> SignalEncoderTimedOut scenario_started = scenario_started
   \<and> Run 0 scenario_started =
       Inr (False, scenario_started\<lparr>tasks := [Some (new_CheckEncoderActivityTask\<lparr>timed_out := True\<rparr>)]\<rparr>)
   \<and> 0 < encoder_target_rate_bps (scenario_started\<lparr>encoder_target_rate_bps := 800000\<rparr>)
   \<and> calls (SignalEncoderTimedOut (scenario_started\<lparr>encoder_target_rate_bps := 800000\<rparr>)) =
       [SetProtectionMethod True True, AddObserver 0 2000000 0 True, SendKeyFrame, RemoveObserver]"
proof -
  have z: "encoder_target_rate_bps scenario_started = 0"
    by (simp add: scenario_started_def scenario_stream_def)
  have p: "0 < encoder_target_rate_bps (scenario_started\<lparr>encoder_target_rate_bps := 800000\<rparr>)"
    by simp
  have t: "0 < length (tasks scenario_started)
      \<and> tasks scenario_started ! 0 = Some new_CheckEncoderActivityTask
      \<and> send_stream new_CheckEncoderActivityTask
      \<and> activity new_CheckEncoderActivityTask = 0
      \<and> \<not> timed_out new_CheckEncoderActivityTask"
    by (simp add: scenario_started_def scenario_stream_def new_CheckEncoderActivityTask_def)
  note g1 = SignalEncoderTimedOut_gate [of scenario_started 0 new_CheckEncoderActivityTask
      scenario_env scenario_config 2000000 scenario_stream]
  note g2 = SignalEncoderTimedOut_gate [of "scenario_started\<lparr>encoder_target_rate_bps := 800000\<rparr>"
      0 new_CheckEncoderActivityTask scenario_env scenario_config 2000000 scenario_stream]
  from g1 z have same: "SignalEncoderTimedOut scenario_started = scenario_started" by blast
  from g1 t have "Run 0 scenario_started = Inr (False, (SignalEncoderTimedOut scenario_started)
       \<lparr>tasks := (tasks (SignalEncoderTimedOut scenario_started))
                   [0 := Some (new_CheckEncoderActivityTask\<lparr>timed_out := True, activity := 0\<rparr>)]\<rparr>)"
    by blast
  then have run: "Run 0 scenario_started =
       Inr (False, scenario_started\<lparr>tasks := [Some (new_CheckEncoderActivityTask\<lparr>timed_out := True\<rparr>)]\<rparr>)"
    by (simp add: same) (simp add: scenario_started_def new_CheckEncoderActivityTask_def)
  from g2 p have "calls (SignalEncoderTimedOut (scenario_started\<lparr>encoder_target_rate_bps := 800000\<rparr>)) =
       calls scenario_started @ [RemoveObserver]"
    by simp
  then have c: "calls (SignalEncoderTimedOut (scenario_started\<lparr>encoder_target_rate_bps := 800000\<rparr>)) =
       [SetProtectionMethod True True, AddObserver 0 2000000 0 True, SendKeyFrame, RemoveObserver]"
    by (simp add: scenario_started_def)
  show ?thesis using z same run p c by blast
qed

subsection \<open>Start and Stop\<close>

text \<open>
  C7. \<^verbatim>\<open>Start\<close> on a started stream, in particular a second \<^verbatim>\<open>Start\<close> after a
  successful one, and \<^verbatim>\<open>Stop\<close> on a stream that is not started, in particular on a
  freshly constructed one, return with every field, the watchdog tasks and the trace
  of calls on the allocator and the encoder unchanged; all they leave behind is the
  INFO line that both methods log on entry.
\<close>

theorem Start_Stop_idempotent:
  "(IsActive s \<longrightarrow>
      Start s = Inr (s\<lparr>rtc_log := rtc_log s @ [(LS_INFO, ''VideoSendStream::Start'')]\<rparr>))
   \<and> (Start s = Inr s1 \<longrightarrow>
        Start s1 = Inr (s1\<lparr>rtc_log := rtc_log s1 @ [(LS_INFO, ''VideoSendStream::Start'')]\<rparr>))
   \<and> (\<not> IsActive s \<longrightarrow>
        Stop s = Inr (s\<lparr>rtc_log := rtc_log s @ [(LS_INFO, ''VideoSendStream::Stop'')]\<rparr>))
   \<and> (new_VideoSendStreamImpl env c m = Inr s \<longrightarrow>
        Stop s = Inr (s\<lparr>rtc_log := rtc_log s @ [(LS_INFO, ''VideoSendStream::Stop'')]\<rparr>))"
proof (intro conjI impI)
  have active: "IsActive s \<Longrightarrow>
      Start s = Inr (s\<lparr>rtc_log := rtc_log s @ [(LS_INFO, ''VideoSendStream::Start'')]\<rparr>)" for s
    by (simp add: Start_def IsActive_def RTC_LOG_def)
  have inactive: "\<not> IsActive s \<Longrightarrow>
      Stop s = Inr (s\<lparr>rtc_log := rtc_log s @ [(LS_INFO, ''VideoSendStream::Stop'')]\<rparr>)" for s
    by (simp add: Stop_def IsActive_def RTC_LOG_def)
  show "Start s = Inr (s\<lparr>rtc_log := rtc_log s @ [(LS_INFO, ''VideoSendStream::Start'')]\<rparr>)"
    if "IsActive s" using that by (rule active)
  show "Start s1 = Inr (s1\<lparr>rtc_log := rtc_log s1 @ [(LS_INFO, ''VideoSendStream::Start'')]\<rparr>)"
    if "Start s = Inr s1" using that by (intro active Start_active)
  show "Stop s = Inr (s\<lparr>rtc_log := rtc_log s @ [(LS_INFO, ''VideoSendStream::Stop'')]\<rparr>)"
    if "\<not> IsActive s" using that by (rule inactive)
  show "Stop s = Inr (s\<lparr>rtc_log := rtc_log s @ [(LS_INFO, ''VideoSendStream::Stop'')]\<rparr>)"
    if "new_VideoSendStreamImpl env c m = Inr s"
    using that by (intro inactive new_VideoSendStreamImpl_fields)
qed


theorem Start_Stop_idempotent_witness:
  "IsActive scenario_started
   \<and> Start scenario_stream = Inr scenario_started
   \<and> Start scenario_started =
       Inr (scenario_started\<lparr>rtc_log := rtc_log scenario_started @ [(LS_INFO, ''VideoSendStream::Start'')]\<rparr>)
   \<and> \<not> IsActive scenario_stream
   \<and> new_VideoSendStreamImpl scenario_env scenario_config 2000000 = Inr scenario_stream
   \<and> Stop scenario_stream =
       Inr (scenario_stream\<lparr>rtc_log := rtc_log scenario_stream @ [(LS_INFO, ''VideoSendStream::Stop'')]\<rparr>)"
proof -
  have a: "IsActive scenario_started"
    by (simp add: IsActive_def scenario_started_def scenario_stream_def)
  have b: "\<not> IsActive scenario_stream"
    by (simp add: IsActive_def scenario_stream_def)
  note t = Start_Stop_idempotent [of scenario_stream scenario_started scenario_env scenario_config 2000000]
  note u = Start_Stop_idempotent [of scenario_started scenario_started scenario_env scenario_config 2000000]
  show ?thesis
    using a b scenario_Start scenario_constructed t u by blast
qed

subsection \<open>The bitrate feedback loop\<close>

lemma encoder_overhead_rate_cong:
  "encoder_overhead_rate (s\<lparr>encoder_target_rate_bps := x, loss_mask_vector := l\<rparr>) b t =
   encoder_overhead_rate s b t"
  by (simp add: encoder_overhead_rate_def split: sum.splits)

lemma encoder_overhead_rate_le:
  "encoder_overhead_rate s b t = Inr overhead \<Longrightarrow> overhead \<le> b - t"
  by (auto simp: encoder_overhead_rate_def CalculateOverheadRateBps_def Let_def
      split: if_splits sum.splits)

lemma OnBitrateUpdated_result:
  assumes "IsActive s"
    and "payload_bitrate s bitrate_bps = Inr payload"
    and "target = UpdateFecRates env payload (GetSendFrameRate env) fraction_loss (loss_mask_vector s) rtt"
    and "encoder_overhead_rate s bitrate_bps target = Inr overhead"
  shows "OnBitrateUpdated env bitrate_bps fraction_loss rtt probing_interval_ms s =
     Inr (bitrate_bps - (target + overhead),
          s\<lparr>encoder_target_rate_bps := min (encoder_max_bitrate_bps s) target,
            loss_mask_vector := [],
            calls := calls s @
              [EncoderOnBitrateUpdated (min (encoder_max_bitrate_bps s) target) fraction_loss rtt,
               OnSetEncoderTargetRate (min (encoder_max_bitrate_bps s) target)]\<rparr>)"
  using assms
  by (simp add: OnBitrateUpdated_def Let_def encoder_overhead_rate_cong do_call_def)

lemma budget_no_wrap:
  fixes b t ov :: uint32_t
  assumes "t \<le> b" and "ov \<le> b - t"
  shows "unat t + unat (b - (t + ov)) + unat ov = unat b"
proof -
  have 1: "unat (b - t) = unat b - unat t" using assms(1) by (rule unat_sub)
  have 2: "unat ov \<le> unat b - unat t" using assms(2) 1 by (simp add: word_le_nat_alt)
  have 3: "unat t \<le> unat b" using assms(1) by (simp add: word_le_nat_alt)
  have 4: "b - (t + ov) = (b - t) - ov" by simp
  have 5: "unat ((b - t) - ov) = unat (b - t) - unat ov" using assms(2) by (rule unat_sub)
  have "unat (b - (t + ov)) = unat b - unat t - unat ov"
    unfolding 4 5 1 by (rule refl)
  then show ?thesis using 2 3 by simp
qed

text \<open>
  C1, as the code has it. On a started stream, when neither packet rate divides by
  zero, \<^verbatim>\<open>OnBitrateUpdated\<close> returns. The rate the FEC controller has answered, the
  protection rate returned to the caller and the encoder overhead add up to the total
  bitrate, exactly, in 32-bit unsigned arithmetic, and without wrap-around when the
  controller's rate does not exceed the total. The rate stored and pushed to the encoder
  and to the statistics is that rate cut to the configured maximum, so it is at most
  the maximum, and it satisfies the same sum whenever the controller's rate is not
  above the maximum.
\<close>

theorem OnBitrateUpdated_budget:
  assumes "IsActive s"
    and "payload_bitrate s bitrate_bps = Inr payload"
    and "target = UpdateFecRates env payload (GetSendFrameRate env) fraction_loss (loss_mask_vector s) rtt"
    and "encoder_overhead_rate s bitrate_bps target = Inr overhead"
  shows "\<exists>protection s'.
      OnBitrateUpdated env bitrate_bps fraction_loss rtt probing_interval_ms s = Inr (protection, s')
    \<and> target + protection + overhead = bitrate_bps
    \<and> encoder_target_rate_bps s' = min (encoder_max_bitrate_bps s) target
    \<and> encoder_target_rate_bps s' \<le> encoder_max_bitrate_bps s
    \<and> calls s' = calls s @ [EncoderOnBitrateUpdated (encoder_target_rate_bps s') fraction_loss rtt,
                              OnSetEncoderTargetRate (encoder_target_rate_bps s')]
    \<and> (target \<le> encoder_max_bitrate_bps s \<longrightarrow>
          encoder_target_rate_bps s' + protection + overhead = bitrate_bps)
    \<and> (target \<le> bitrate_bps \<longrightarrow> unat target + unat protection + unat overhead = unat bitrate_bps)"
proof -
  let ?p = "bitrate_bps - (target + overhead)"
  let ?pushed = "min (encoder_max_bitrate_bps s) target"
  let ?s' = "s\<lparr>encoder_target_rate_bps := ?pushed,
            loss_mask_vector := [],
            calls := calls s @
              [EncoderOnBitrateUpdated ?pushed fraction_loss rtt, OnSetEncoderTargetRate ?pushed]\<rparr>"
  have r: "OnBitrateUpdated env bitrate_bps fraction_loss rtt probing_interval_ms s = Inr (?p, ?s')"
    using assms by (rule OnBitrateUpdated_result)
  have sum: "target + ?p + overhead = bitrate_bps" by simp
  have clamp: "target \<le> encoder_max_bitrate_bps s \<Longrightarrow> ?pushed = target" by (simp add: min_def)
  have nowrap: "target \<le> bitrate_bps \<Longrightarrow> unat target + unat ?p + unat overhead = unat bitrate_bps"
    using encoder_overhead_rate_le [OF assms(4)] by (simp add: budget_no_wrap)
  show ?thesis
    apply (rule exI [of _ ?p], rule exI [of _ ?s'])
    using r sum clamp nowrap by simp
qed

theorem OnBitrateUpdated_budget_witness:
  "IsActive scenario_started
   \<and> payload_bitrate scenario_started 1000000 = Inr 1000000
   \<and> encoder_overhead_rate scenario_started 1000000 800000 = Inr 0
   \<and> map_sum id fst (OnBitrateUpdated scenario_env 1000000 0 50 1000 scenario_started) = Inr 200000
   \<and> map_sum id (encoder_target_rate_bps \<circ> snd)
         (OnBitrateUpdated scenario_env 1000000 0 50 1000 scenario_started) = Inr 800000
   \<and> (800000 :: uint32_t) + 200000 + 0 = 1000000"
proof -
  have a: "IsActive scenario_started"
    by (simp add: IsActive_def scenario_started_def scenario_stream_def)
  have p: "payload_bitrate scenario_started 1000000 = Inr 1000000"
    by (simp add: payload_bitrate_def scenario_started_def scenario_stream_def)
  have t: "800000 = UpdateFecRates scenario_env 1000000 (GetSendFrameRate scenario_env) 0
      (loss_mask_vector scenario_started) 50"
    by (simp add: scenario_env_def)
  have o: "encoder_overhead_rate scenario_started 1000000 800000 = Inr 0"
    by (simp add: encoder_overhead_rate_def scenario_started_def scenario_stream_def)
  have m: "min (encoder_max_bitrate_bps scenario_started) 800000 = 800000"
    by (simp add: scenario_started_def scenario_stream_def)
  from OnBitrateUpdated_budget [OF a p t o, of 1000]
  obtain protection s' where
    r: "OnBitrateUpdated scenario_env 1000000 0 50 1000 scenario_started = Inr (protection, s')"
    and s: "800000 + protection + 0 = 1000000"
    and e: "encoder_target_rate_bps s' = min (encoder_max_bitrate_bps scenario_started) 800000"
    by blast
  from s have "protection = 1000000 - 800000" by (simp add: algebra_simps)
  then have v: "protection = 200000" by simp
  have r1: "map_sum id fst (OnBitrateUpdated scenario_env 1000000 0 50 1000 scenario_started) = Inr 200000"
    by (simp add: r v)
  have r2: "map_sum id (encoder_target_rate_bps \<circ> snd)
         (OnBitrateUpdated scenario_env 1000000 0 50 1000 scenario_started) = Inr 800000"
    by (simp add: r e m)
  have r3: "(800000 :: uint32_t) + 200000 + 0 = 1000000" by simp
  show ?thesis using a p o r1 r2 r3 by blast
qed

text \<open>
  C1 as stated fails when the clamp bites. With a total of 5000000, a FEC controller
  answering 3000000 and a maximum of 2000000, the encoder is given 2000000 and the
  caller 2000000 of protection, with no overhead: together 4000000.
\<close>

theorem OnBitrateUpdated_budget_counterexample:
  "OnBitrateUpdated generous_env 5000000 0 50 1000 scenario_started =
     Inr (2000000,
          scenario_started
            \<lparr>encoder_target_rate_bps := 2000000,
             calls := [SetProtectionMethod True True, AddObserver 0 2000000 0 True, SendKeyFrame,
                       EncoderOnBitrateUpdated 2000000 0 50, OnSetEncoderTargetRate 2000000]\<rparr>)
   \<and> encoder_overhead_rate scenario_started 5000000 3000000 = Inr 0
   \<and> encoder_max_bitrate_bps scenario_started = 2000000
   \<and> (2000000 :: uint32_t) + 2000000 + 0 = 4000000
   \<and> (4000000 :: uint32_t) \<noteq> 5000000"
  by (simp add: OnBitrateUpdated_def payload_bitrate_def encoder_overhead_rate_def IsActive_def
      scenario_started_def scenario_stream_def scenario_env_def generous_env_def do_call_def Let_def)

text \<open>
  C4. \<^verbatim>\<open>OnBitrateUpdated(1000000, 0, 50, 1000)\<close> on a started stream without overhead
  accounting, the FEC controller answering 800000: the encoder overhead is 0 and the
  protection bitrate returned is 200000.
\<close>

theorem OnBitrateUpdated_scenario:
  assumes "IsActive s"
    and "\<not> send_side_bwe_with_overhead s"
    and "UpdateFecRates env 1000000 (GetSendFrameRate env) 0 (loss_mask_vector s) 50 = 800000"
  shows "encoder_overhead_rate s 1000000 800000 = Inr 0
    \<and> (\<exists>s'. OnBitrateUpdated env 1000000 0 50 1000 s = Inr (200000, s'))"
proof -
  have p: "payload_bitrate s 1000000 = Inr 1000000"
    using assms(2) by (simp add: payload_bitrate_def)
  have o: "encoder_overhead_rate s 1000000 800000 = Inr 0"
    using assms(2) by (simp add: encoder_overhead_rate_def)
  have "OnBitrateUpdated env 1000000 0 50 1000 s =
     Inr (1000000 - (800000 + 0),
          s\<lparr>encoder_target_rate_bps := min (encoder_max_bitrate_bps s) 800000,
            loss_mask_vector := [],
            calls := calls s @
              [EncoderOnBitrateUpdated (min (encoder_max_bitrate_bps s) 800000) 0 50,
               OnSetEncoderTargetRate (min (encoder_max_bitrate_bps s) 800000)]\<rparr>)"
    using assms(1) p assms(3) [symmetric] o by (rule OnBitrateUpdated_result)
  then show ?thesis using o by simp
qed

theorem OnBitrateUpdated_scenario_witness:
  "IsActive scenario_started
   \<and> \<not> send_side_bwe_with_overhead scenario_started
   \<and> UpdateFecRates scenario_env 1000000 (GetSendFrameRate scenario_env) 0
        (loss_mask_vector scenario_started) 50 = 800000
   \<and> map_sum id fst (OnBitrateUpdated scenario_env 1000000 0 50 1000 scenario_started) = Inr 200000"
proof -
  have a: "IsActive scenario_started"
    by (simp add: IsActive_def scenario_started_def scenario_stream_def)
  have b: "\<not> send_side_bwe_with_overhead scenario_started"
    by (simp add: scenario_started_def scenario_stream_def)
  have c: "UpdateFecRates scenario_env 1000000 (GetSendFrameRate scenario_env) 0
        (loss_mask_vector scenario_started) 50 = 800000"
    by (simp add: scenario_env_def)
  from OnBitrateUpdated_scenario [OF a b c]
  obtain s' where "OnBitrateUpdated scenario_env 1000000 0 50 1000 scenario_started = Inr (200000, s')"
    by blast
  then have "map_sum id fst (OnBitrateUpdated scenario_env 1000000 0 50 1000 scenario_started) = Inr 200000"
    by simp
  with a b c show ?thesis by blast
qed

subsection \<open>The watchdog\<close>

lemma task_Run_live:
  assumes "send_stream t"
  shows "task_Run t =
     (False,
      (if activity t = 0 then (if timed_out t then None else Some EncoderTimedOut)
       else if timed_out t then Some EncoderActive else None),
      t\<lparr>timed_out := (activity t = 0), activity := 0\<rparr>)"
  using assms by (cases t) (simp add: task_Run_def)

lemma ticks_quiet:
  "send_stream t \<Longrightarrow> timed_out t \<Longrightarrow> activity t = 0 \<Longrightarrow> ticks (replicate k False) t = ([], t)"
proof (induction k)
  case 0
  show ?case by simp
next
  case (Suc k)
  have same: "t\<lparr>timed_out := True, activity := 0\<rparr> = t"
    using Suc.prems by (cases t) simp
  show ?case
    using Suc by (simp add: task_Run_live same)
qed

lemma task_Run_stopped: "\<not> send_stream t \<Longrightarrow> task_Run t = (True, None, t)"
  by (simp add: task_Run_def)

text \<open>
  C5. For a watchdog that still holds its stream: a tick with no activity since the
  previous one, while not timed out, sends exactly the TimedOut notification and
  leaves the watchdog timed out, and any number of further ticks without activity send
  nothing more; a tick after activity, while timed out, sends exactly the Active
  notification and leaves the watchdog active; after every tick the activity flag is
  zero and the watchdog still holds its stream.
\<close>

theorem watchdog_ticks:
  assumes "send_stream t"
  shows "(activity t = 0 \<and> \<not> timed_out t \<longrightarrow>
            task_Run t = (False, Some EncoderTimedOut, t\<lparr>timed_out := True, activity := 0\<rparr>)
          \<and> ticks (replicate (Suc k) False) t = ([EncoderTimedOut], t\<lparr>timed_out := True, activity := 0\<rparr>))
    \<and> (timed_out t \<longrightarrow>
            task_Run (UpdateEncoderActivity t) =
              (False, Some EncoderActive, t\<lparr>timed_out := False, activity := 0\<rparr>)
          \<and> ticks [True] t = ([EncoderActive], t\<lparr>timed_out := False, activity := 0\<rparr>))
    \<and> activity (snd (snd (task_Run t))) = 0
    \<and> send_stream (snd (snd (task_Run t)))"
proof (intro conjI impI)
  assume idle: "activity t = 0 \<and> \<not> timed_out t"
  show first: "task_Run t = (False, Some EncoderTimedOut, t\<lparr>timed_out := True, activity := 0\<rparr>)"
    using assms idle by (simp add: task_Run_live)
  have "ticks (replicate k False) (t\<lparr>timed_out := True, activity := 0\<rparr>) =
      ([], t\<lparr>timed_out := True, activity := 0\<rparr>)"
    using assms by (intro ticks_quiet) simp_all
  then show "ticks (replicate (Suc k) False) t = ([EncoderTimedOut], t\<lparr>timed_out := True, activity := 0\<rparr>)"
    using first by simp
next
  assume out: "timed_out t"
  show second: "task_Run (UpdateEncoderActivity t) =
      (False, Some EncoderActive, t\<lparr>timed_out := False, activity := 0\<rparr>)"
    using assms out by (simp add: task_Run_live UpdateEncoderActivity_def)
  then show "ticks [True] t = ([EncoderActive], t\<lparr>timed_out := False, activity := 0\<rparr>)"
    by simp
next
  show "activity (snd (snd (task_Run t))) = 0"
    using assms by (simp add: task_Run_live)
  show "send_stream (snd (snd (task_Run t)))"
    using assms by (simp add: task_Run_live)
qed

theorem watchdog_ticks_witness:
  "send_stream new_CheckEncoderActivityTask
   \<and> activity new_CheckEncoderActivityTask = 0
   \<and> \<not> timed_out new_CheckEncoderActivityTask
   \<and> ticks [False, False, False] new_CheckEncoderActivityTask =
       ([EncoderTimedOut], new_CheckEncoderActivityTask\<lparr>timed_out := True\<rparr>)
   \<and> timed_out (new_CheckEncoderActivityTask\<lparr>timed_out := True\<rparr>)
   \<and> ticks [True] (new_CheckEncoderActivityTask\<lparr>timed_out := True\<rparr>) =
       ([EncoderActive], new_CheckEncoderActivityTask)"
proof -
  have l: "send_stream new_CheckEncoderActivityTask"
    and a: "activity new_CheckEncoderActivityTask = 0"
    and n: "\<not> timed_out new_CheckEncoderActivityTask"
    by (simp_all add: new_CheckEncoderActivityTask_def)
  have l2: "send_stream (new_CheckEncoderActivityTask\<lparr>timed_out := True\<rparr>)"
    and o: "timed_out (new_CheckEncoderActivityTask\<lparr>timed_out := True\<rparr>)"
    by (simp_all add: new_CheckEncoderActivityTask_def)
  have r: "replicate (Suc 2) False = [False, False, False]"
    by (simp add: numeral_2_eq_2)
  have e1: "new_CheckEncoderActivityTask\<lparr>timed_out := True, activity := 0\<rparr> =
      new_CheckEncoderActivityTask\<lparr>timed_out := True\<rparr>"
    by (simp add: new_CheckEncoderActivityTask_def)
  have e2: "new_CheckEncoderActivityTask\<lparr>timed_out := True, timed_out := False, activity := 0\<rparr> =
      new_CheckEncoderActivityTask"
    by (simp add: new_CheckEncoderActivityTask_def)
  from watchdog_ticks [OF l, of 2] a n
  have t1: "ticks [False, False, False] new_CheckEncoderActivityTask =
       ([EncoderTimedOut], new_CheckEncoderActivityTask\<lparr>timed_out := True\<rparr>)"
    unfolding r e1 by blast
  from watchdog_ticks [OF l2, of 0] o
  have t2: "ticks [True] (new_CheckEncoderActivityTask\<lparr>timed_out := True\<rparr>) =
       ([EncoderActive], new_CheckEncoderActivityTask)"
    unfolding e2 by blast
  show ?thesis using l a n o t1 t2 by blast
qed

subsection \<open>The packet feedback tracker\<close>

lemma OnPacketAdded_config: "config (OnPacketAdded c ssrc seq_num s) = config s"
  by (simp add: OnPacketAdded_def RTC_LOG_def Let_def)

lemma OnPacketAdded_foreign_ssrc:
  "ssrc \<notin> set (ssrcs (config s)) \<Longrightarrow> OnPacketAdded True ssrc seq_num s = s"
  by (simp add: OnPacketAdded_def)

lemma OnPacketAdded_fits:
  assumes "ssrc \<in> set (ssrcs (config s))"
    and "card (insert seq_num (feedback_packet_seq_num_set s)) \<le> kSendSideSeqNumSetMaxSize"
  shows "OnPacketAdded True ssrc seq_num s =
     s\<lparr>feedback_packet_seq_num_set := insert seq_num (feedback_packet_seq_num_set s)\<rparr>"
  using assms by (simp add: OnPacketAdded_def Let_def)

lemma OnPacketAdded_overflow:
  assumes "ssrc \<in> set (ssrcs (config s))"
    and "card (insert seq_num (feedback_packet_seq_num_set s)) > kSendSideSeqNumSetMaxSize"
  shows "OnPacketAdded True ssrc seq_num s =
     s\<lparr>feedback_packet_seq_num_set := {},
       rtc_log := rtc_log s @
         [(LS_WARNING, ''Feedback packet sequence number set exceed it's max size', will get reset.'')]\<rparr>"
  using assms by (simp add: OnPacketAdded_def Let_def RTC_LOG_def)

lemma fold_OnPacketAdded_below_capacity:
  assumes "ssrc \<in> set (ssrcs (config s))"
    and "distinct seqs"
    and "set seqs \<inter> feedback_packet_seq_num_set s = {}"
    and "card (feedback_packet_seq_num_set s) + length seqs \<le> kSendSideSeqNumSetMaxSize"
  shows "fold (OnPacketAdded True ssrc) seqs s =
     s\<lparr>feedback_packet_seq_num_set := feedback_packet_seq_num_set s \<union> set seqs\<rparr>"
  using assms
proof (induction seqs arbitrary: s)
  case Nil
  show ?case by simp
next
  case (Cons x xs)
  let ?s1 = "s\<lparr>feedback_packet_seq_num_set := insert x (feedback_packet_seq_num_set s)\<rparr>"
  from Cons.prems have fresh: "x \<notin> feedback_packet_seq_num_set s" by simp
  then have c: "card (insert x (feedback_packet_seq_num_set s)) = Suc (card (feedback_packet_seq_num_set s))"
    by simp
  with Cons.prems have step: "OnPacketAdded True ssrc x s = ?s1"
    by (intro OnPacketAdded_fits) simp_all
  have "fold (OnPacketAdded True ssrc) xs ?s1 =
      ?s1\<lparr>feedback_packet_seq_num_set := feedback_packet_seq_num_set ?s1 \<union> set xs\<rparr>"
    using Cons.prems c by (intro Cons.IH) auto
  then show ?case by (simp add: step)
qed

lemma fold_OnPacketAdded_one_too_many:
  assumes "ssrc \<in> set (ssrcs (config s))"
    and "feedback_packet_seq_num_set s = {}"
    and "distinct seqs"
    and "length seqs = kSendSideSeqNumSetMaxSize + 1"
  shows "feedback_packet_seq_num_set (fold (OnPacketAdded True ssrc) seqs s) = {}"
proof -
  from assms(4) have ne: "seqs \<noteq> []" by auto
  define front where "front = butlast seqs"
  define x where "x = last seqs"
  have split: "seqs = front @ [x]" using ne by (simp add: front_def x_def)
  have len: "length front = kSendSideSeqNumSetMaxSize" using assms(4) by (simp add: front_def)
  have d: "distinct front" and fresh: "x \<notin> set front" using assms(3) by (simp_all add: split)
  let ?s1 = "s\<lparr>feedback_packet_seq_num_set := feedback_packet_seq_num_set s \<union> set front\<rparr>"
  have front: "fold (OnPacketAdded True ssrc) front s = ?s1"
    using assms(1) d by (intro fold_OnPacketAdded_below_capacity) (simp_all add: assms(2) len)
  have w: "feedback_packet_seq_num_set ?s1 = set front" by (simp add: assms(2))
  have "card (insert x (set front)) = Suc (length front)"
    using d fresh by (simp add: distinct_card)
  then have over: "card (insert x (feedback_packet_seq_num_set ?s1)) > kSendSideSeqNumSetMaxSize"
    by (simp add: w len)
  have "ssrc \<in> set (ssrcs (config ?s1))" using assms(1) by simp
  then have "feedback_packet_seq_num_set (OnPacketAdded True ssrc x ?s1) = {}"
    using over by (simp add: OnPacketAdded_overflow)
  then show ?thesis by (simp add: split front)
qed

text \<open>
  C6. \<^verbatim>\<open>OnPacketAdded(ssrc, seq)\<close> on the worker queue: for an SSRC that is not one of
  the stream's media SSRCs nothing changes; for a media SSRC the sequence number is
  inserted into the window, and when the window then holds more than 5500 numbers it
  is emptied. So adding 5501 distinct sequence numbers to an empty window leaves it
  empty.
\<close>

theorem OnPacketAdded_window:
  "(ssrc \<notin> set (ssrcs (config s)) \<longrightarrow> OnPacketAdded True ssrc seq_num s = s)
   \<and> (ssrc \<in> set (ssrcs (config s))
        \<and> card (insert seq_num (feedback_packet_seq_num_set s)) \<le> kSendSideSeqNumSetMaxSize \<longrightarrow>
        OnPacketAdded True ssrc seq_num s =
          s\<lparr>feedback_packet_seq_num_set := insert seq_num (feedback_packet_seq_num_set s)\<rparr>)
   \<and> (ssrc \<in> set (ssrcs (config s))
        \<and> card (insert seq_num (feedback_packet_seq_num_set s)) > kSendSideSeqNumSetMaxSize \<longrightarrow>
        feedback_packet_seq_num_set (OnPacketAdded True ssrc seq_num s) = {})
   \<and> (ssrc \<in> set (ssrcs (config s)) \<and> feedback_packet_seq_num_set s = {}
        \<and> distinct seqs \<and> length seqs = kSendSideSeqNumSetMaxSize + 1 \<longrightarrow>
        feedback_packet_seq_num_set (fold (OnPacketAdded True ssrc) seqs s) = {})
   \<and> kSendSideSeqNumSetMaxSize = 5500"
  by (simp add: OnPacketAdded_foreign_ssrc OnPacketAdded_fits OnPacketAdded_overflow
      fold_OnPacketAdded_one_too_many kSendSideSeqNumSetMaxSize_def)

lemma distinct_sequence_numbers:
  "distinct (map (word_of_nat :: nat \<Rightarrow> uint16_t) [0..<5501])"
proof -
  have "inj_on (word_of_nat :: nat \<Rightarrow> uint16_t) {0..<5501}"
  proof (rule inj_onI)
    fix m n :: nat
    assume m: "m \<in> {0..<5501}" and n: "n \<in> {0..<5501}"
      and e: "(word_of_nat m :: uint16_t) = word_of_nat n"
    from e have "take_bit 16 m = take_bit 16 n" by (simp add: word_of_nat_eq_iff)
    moreover have "take_bit 16 m = m" using m by (simp add: take_bit_nat_eq_self)
    moreover have "take_bit 16 n = n" using n by (simp add: take_bit_nat_eq_self)
    ultimately show "m = n" by simp
  qed
  then show ?thesis by (simp add: distinct_map)
qed

theorem OnPacketAdded_window_witness:
  "42 \<notin> set (ssrcs (config scenario_started))
   \<and> OnPacketAdded True 42 7 scenario_started = scenario_started
   \<and> 1001 \<in> set (ssrcs (config scenario_started))
   \<and> OnPacketAdded True 1001 7 scenario_started = scenario_started\<lparr>feedback_packet_seq_num_set := {7}\<rparr>
   \<and> feedback_packet_seq_num_set scenario_started = {}
   \<and> distinct (map (word_of_nat :: nat \<Rightarrow> uint16_t) [0..<5501])
   \<and> length (map (word_of_nat :: nat \<Rightarrow> uint16_t) [0..<5501]) = kSendSideSeqNumSetMaxSize + 1
   \<and> feedback_packet_seq_num_set
        (fold (OnPacketAdded True 1001) (map word_of_nat [0..<5501]) scenario_started) = {}"
proof -
  have c: "ssrcs (config scenario_started) = [1001]"
    and e: "feedback_packet_seq_num_set scenario_started = {}"
    by (simp_all add: scenario_started_def scenario_stream_def scenario_config_def)
  have out: "42 \<notin> set (ssrcs (config scenario_started))"
    and inn: "1001 \<in> set (ssrcs (config scenario_started))"
    by (simp_all add: c)
  have one: "card (insert 7 (feedback_packet_seq_num_set scenario_started)) \<le> kSendSideSeqNumSetMaxSize"
    by (simp add: e kSendSideSeqNumSetMaxSize_def)
  have l: "length (map (word_of_nat :: nat \<Rightarrow> uint16_t) [0..<5501]) = kSendSideSeqNumSetMaxSize + 1"
    by (simp add: kSendSideSeqNumSetMaxSize_def)
  note d = distinct_sequence_numbers
  from OnPacketAdded_window [of 42 scenario_started 7 "[]"] out
  have r1: "OnPacketAdded True 42 7 scenario_started = scenario_started" by blast
  from OnPacketAdded_window [of 1001 scenario_started 7 "map word_of_nat [0..<5501]"] inn one
  have "OnPacketAdded True 1001 7 scenario_started =
      scenario_started\<lparr>feedback_packet_seq_num_set := insert 7 (feedback_packet_seq_num_set scenario_started)\<rparr>"
    by blast
  then have r2: "OnPacketAdded True 1001 7 scenario_started =
      scenario_started\<lparr>feedback_packet_seq_num_set := {7}\<rparr>"
    by (simp add: e)
  from OnPacketAdded_window [of 1001 scenario_started 7 "map word_of_nat [0..<5501]"] inn e d l
  have r3: "feedback_packet_seq_num_set
        (fold (OnPacketAdded True 1001) (map word_of_nat [0..<5501]) scenario_started) = {}"
    by blast
  show ?thesis using out r1 inn r2 e d l r3 by blast
qed

lemma feedback_round_found:
  assumes "sequence_number packet \<in> feedback_packet_seq_num_set s"
  shows "feedback_round packet s =
     s\<lparr>loss_mask_vector := loss_mask_vector s @ [arrival_time_ms packet = kNotReceived],
       feedback_packet_seq_num_set := feedback_packet_seq_num_set s - {1}\<rparr>"
  using assms by (simp add: feedback_round_def Let_def)

lemma feedback_round_missing:
  "sequence_number packet \<notin> feedback_packet_seq_num_set s \<Longrightarrow> feedback_round packet s = s"
  by (simp add: feedback_round_def)

text \<open>
  C2, at an input where the code departs from it. The window holds 1 and 5 after two
  packets were added; a report that packet 5 has arrived adds \<open>False\<close> to the loss
  mask, but it is key 1 that leaves the window, and 5 stays.
\<close>

theorem OnPacketFeedbackVector_erases_key_one:
  "feedback_packet_seq_num_set (OnPacketAdded True 1001 5 (OnPacketAdded True 1001 1 scenario_started)) = {1, 5}
   \<and> feedback_packet_seq_num_set
        (OnPacketFeedbackVector True [\<lparr>sequence_number = 5, arrival_time_ms = 17\<rparr>]
           (OnPacketAdded True 1001 5 (OnPacketAdded True 1001 1 scenario_started))) = {5}
   \<and> loss_mask_vector
        (OnPacketFeedbackVector True [\<lparr>sequence_number = 5, arrival_time_ms = 17\<rparr>]
           (OnPacketAdded True 1001 5 (OnPacketAdded True 1001 1 scenario_started))) = [False]"
proof -
  have a: "OnPacketAdded True 1001 5 (OnPacketAdded True 1001 1 scenario_started) =
      scenario_started\<lparr>feedback_packet_seq_num_set := {1, 5}\<rparr>"
    by (simp add: OnPacketAdded_def scenario_started_def scenario_stream_def scenario_config_def
        kSendSideSeqNumSetMaxSize_def Let_def insert_commute)
  show ?thesis
    unfolding a
    by (simp add: OnPacketFeedbackVector_def feedback_round_def kNotReceived_def Let_def
        scenario_started_def scenario_stream_def)
qed

subsection \<open>The protection policy\<close>

lemma supports_skipping_iff:
  "PayloadTypeSupportsSkippingFecPackets name \<longleftrightarrow> name = ''VP8'' \<or> name = ''VP9''"
  by (simp add: PayloadTypeSupportsSkippingFecPackets_def PayloadStringToCodecType_def)

text \<open>
  The four blocks of \<^verbatim>\<open>ConfigureProtection\<close> against the rules of the spec: the same
  failure, the same payload types, and a log that lists the rules that fired, in order.
\<close>

lemma protection_rules_spec:
  assumes "override = field_trial_IsEnabled env ''WebRTC-DisableUlpFecExperiment''"
    and "flexfec_enabled = (flexfec_sender s \<noteq> None)"
    and "nack_enabled = (nack_rtp_history_ms (config s) > 0)"
    and "name = payload_name (config s)"
    and "red = red_payload_type (config s)"
    and "ulpfec = ulpfec_payload_type (config s)"
  shows "protection_rules env s =
     (if spec_check_fails override flexfec_enabled nack_enabled name red ulpfec then Inl DCheckFailed
      else Inr (if flexfec_enabled \<and> red \<ge> 0 then - 1 else red,
                if override then - 1
                else if ulpfec \<ge> 0 \<and> (flexfec_enabled
                        \<or> (nack_enabled \<and> name \<noteq> ''VP8'' \<and> name \<noteq> ''VP9'') \<or> red < 0)
                then - 1 else ulpfec,
                s\<lparr>rtc_log := rtc_log s @
                     map rule_message (spec_fired override flexfec_enabled nack_enabled name red ulpfec)\<rparr>))"
  unfolding assms
  by (simp add: protection_rules_def rule_verify_def rule_nack_def rule_flexfec_def
      rule_experiment_def IsRedEnabled_def IsUlpfecEnabled_def RTC_LOG_def Let_def
      spec_check_fails_def spec_fired_def spec_rule_red_def spec_rule_nack_def spec_rule_flexfec_def
      spec_rule_override_def configured_def out_of_range_def rule_message_def supports_skipping_iff)

lemma spec_policy_closed:
  "spec_policy override flexfec_enabled nack_enabled name red ulpfec =
     (configured (if flexfec_enabled \<and> red \<ge> 0 then - 1 else red),
      configured (if override then - 1
                else if ulpfec \<ge> 0 \<and> (flexfec_enabled
                        \<or> (nack_enabled \<and> name \<noteq> ''VP8'' \<and> name \<noteq> ''VP9'') \<or> red < 0)
                then - 1 else ulpfec))"
  by (simp add: spec_policy_def spec_rule_red_def spec_rule_nack_def spec_rule_flexfec_def
      spec_rule_override_def configured_def)

lemma policy_of_configured:
  "policy_red (policy_of f r u n) = configured r" "policy_ulpfec (policy_of f r u n) = configured u"
  "policy_flexfec (policy_of f r u n) = f" "policy_nack (policy_of f r u n) = n"
  by (simp_all add: policy_of_def configured_def IsRedEnabled_def IsUlpfecEnabled_def)

text \<open>
  C3, as the code has it. The policy computed by \<^verbatim>\<open>ConfigureProtection\<close> is the one the
  rules of the spec give when they are applied once each in the order override, FlexFEC,
  NACK, RED. With a FlexFEC sender, RED and ULPFEC are both disabled; with NACK, a
  configured ULPFEC and a payload name other than VP8 and VP9, ULPFEC is disabled; with
  ULPFEC configured and RED not, ULPFEC is disabled; with the field trial
  \<^verbatim>\<open>WebRTC-DisableUlpFecExperiment\<close> enabled, ULPFEC is disabled; for VP8 or VP9 with
  NACK, ULPFEC and RED configured, no FlexFEC sender and the field trial off, both keep
  their configured payload types. The order shows in what the function logs and in
  where it checks: the lines it adds to the log are those of the rules that fire, each
  rule judged on the payload types left by the rules before it, in that order; and it
  fails exactly when a payload type still enabled after the NACK rule is above 127.
  The policy is set on every module and reported to the FEC controller.
\<close>

theorem ConfigureProtection_policy:
  assumes "override = field_trial_IsEnabled env ''WebRTC-DisableUlpFecExperiment''"
    and "flexfec_enabled = (flexfec_sender s \<noteq> None)"
    and "nack_enabled = (nack_rtp_history_ms (config s) > 0)"
    and "name = payload_name (config s)"
    and "red = red_payload_type (config s)"
    and "ulpfec = ulpfec_payload_type (config s)"
  shows "(spec_check_fails override flexfec_enabled nack_enabled name red ulpfec \<longrightarrow>
            protection_policy env s = Inl DCheckFailed \<and> ConfigureProtection env s = Inl DCheckFailed)
   \<and> (\<not> spec_check_fails override flexfec_enabled nack_enabled name red ulpfec \<longrightarrow>
        (\<exists>p s'. protection_policy env s = Inr p \<and> ConfigureProtection env s = Inr s'
           \<and> rtc_log s' = rtc_log s @
                map rule_message (spec_fired override flexfec_enabled nack_enabled name red ulpfec)))
   \<and> (\<forall>p. protection_policy env s = Inr p \<longrightarrow>
         (flexfec_enabled \<longrightarrow> policy_red p = None \<and> policy_ulpfec p = None)
       \<and> (nack_enabled \<and> ulpfec \<ge> 0 \<and> name \<noteq> ''VP8'' \<and> name \<noteq> ''VP9'' \<longrightarrow> policy_ulpfec p = None)
       \<and> (ulpfec \<ge> 0 \<and> red < 0 \<longrightarrow> policy_ulpfec p = None)
       \<and> (override \<longrightarrow> policy_ulpfec p = None)
       \<and> ((name = ''VP8'' \<or> name = ''VP9'') \<and> nack_enabled \<and> ulpfec \<ge> 0 \<and> red \<ge> 0
            \<and> \<not> flexfec_enabled \<and> \<not> override \<longrightarrow>
            policy_ulpfec p = Some ulpfec \<and> policy_red p = Some red)
       \<and> (policy_red p, policy_ulpfec p) =
            spec_policy override flexfec_enabled nack_enabled name red ulpfec
       \<and> policy_flexfec p = flexfec_enabled
       \<and> policy_nack p = nack_enabled
       \<and> (\<exists>s'. ConfigureProtection env s = Inr s'
              \<and> rtc_log s' = rtc_log s @
                   map rule_message (spec_fired override flexfec_enabled nack_enabled name red ulpfec)
              \<and> calls s' = calls s @
                   [SetProtectionMethod (policy_flexfec p \<or> policy_ulpfec p \<noteq> None) (policy_nack p)]
              \<and> length (rtp_rtcp_modules s') = length (rtp_rtcp_modules s)
              \<and> (\<forall>m \<in> set (rtp_rtcp_modules s').
                    map_option (map_prod configured configured) (ulpfec_config m) =
                      Some (policy_red p, policy_ulpfec p))))"
proof -
  let ?fails = "spec_check_fails override flexfec_enabled nack_enabled name red ulpfec"
  let ?red = "if flexfec_enabled \<and> red \<ge> 0 then - 1 else red"
  let ?ulpfec = "if override then - 1
                else if ulpfec \<ge> 0 \<and> (flexfec_enabled
                        \<or> (nack_enabled \<and> name \<noteq> ''VP8'' \<and> name \<noteq> ''VP9'') \<or> red < 0)
                then - 1 else ulpfec"
  let ?log = "rtc_log s @ map rule_message (spec_fired override flexfec_enabled nack_enabled name red ulpfec)"
  let ?p = "policy_of flexfec_enabled ?red ?ulpfec nack_enabled"
  note r = protection_rules_spec [OF assms]
  have failing: "?fails \<Longrightarrow>
      protection_policy env s = Inl DCheckFailed \<and> ConfigureProtection env s = Inl DCheckFailed"
    by (simp add: protection_policy_def ConfigureProtection_def r)
  have pol: "\<not> ?fails \<Longrightarrow> protection_policy env s = Inr ?p"
    by (simp add: protection_policy_def r assms(2,3))
  define s' where "s' = do_call
        (SetProtectionMethod (flexfec_enabled \<or> IsUlpfecEnabled ?ulpfec) nack_enabled)
        (s\<lparr>rtc_log := ?log,
           rtp_rtcp_modules := map (\<lambda>rtp_rtcp. SetUlpfecConfig ?red ?ulpfec
               (SetStorePacketsStatus True kMinSendSidePacketHistorySize rtp_rtcp)) (rtp_rtcp_modules s)\<rparr>)"
  have s': "\<not> ?fails \<Longrightarrow> ConfigureProtection env s = Inr s'"
    unfolding s'_def by (simp add: ConfigureProtection_def r assms(2,3) Let_def)
  have log: "rtc_log s' = ?log"
    unfolding s'_def by (simp add: do_call_def)
  have calls: "calls s' = calls s @
        [SetProtectionMethod (flexfec_enabled \<or> IsUlpfecEnabled ?ulpfec) nack_enabled]"
    unfolding s'_def by (simp add: do_call_def)
  have len: "length (rtp_rtcp_modules s') = length (rtp_rtcp_modules s)"
    unfolding s'_def by (simp add: do_call_def)
  have mods: "\<forall>m \<in> set (rtp_rtcp_modules s'). ulpfec_config m = Some (?red, ?ulpfec)"
    unfolding s'_def by (simp add: do_call_def SetUlpfecConfig_def SetStorePacketsStatus_def)
  have returns: "\<not> ?fails \<Longrightarrow> \<exists>p s'. protection_policy env s = Inr p
      \<and> ConfigureProtection env s = Inr s' \<and> rtc_log s' = ?log"
    using pol s' log by blast
  have props: "(flexfec_enabled \<longrightarrow> policy_red p = None \<and> policy_ulpfec p = None)
       \<and> (nack_enabled \<and> ulpfec \<ge> 0 \<and> name \<noteq> ''VP8'' \<and> name \<noteq> ''VP9'' \<longrightarrow> policy_ulpfec p = None)
       \<and> (ulpfec \<ge> 0 \<and> red < 0 \<longrightarrow> policy_ulpfec p = None)
       \<and> (override \<longrightarrow> policy_ulpfec p = None)
       \<and> ((name = ''VP8'' \<or> name = ''VP9'') \<and> nack_enabled \<and> ulpfec \<ge> 0 \<and> red \<ge> 0
            \<and> \<not> flexfec_enabled \<and> \<not> override \<longrightarrow>
            policy_ulpfec p = Some ulpfec \<and> policy_red p = Some red)
       \<and> (policy_red p, policy_ulpfec p) =
            spec_policy override flexfec_enabled nack_enabled name red ulpfec
       \<and> policy_flexfec p = flexfec_enabled
       \<and> policy_nack p = nack_enabled
       \<and> (\<exists>s'. ConfigureProtection env s = Inr s'
              \<and> rtc_log s' = ?log
              \<and> calls s' = calls s @
                   [SetProtectionMethod (policy_flexfec p \<or> policy_ulpfec p \<noteq> None) (policy_nack p)]
              \<and> length (rtp_rtcp_modules s') = length (rtp_rtcp_modules s)
              \<and> (\<forall>m \<in> set (rtp_rtcp_modules s').
                    map_option (map_prod configured configured) (ulpfec_config m) =
                      Some (policy_red p, policy_ulpfec p)))"
    if p: "protection_policy env s = Inr p" for p
  proof -
    have nf: "\<not> ?fails" using p failing by auto
    have e: "p = ?p" using pol [OF nf] p by simp
    have pr: "policy_red p = configured ?red" and pu: "policy_ulpfec p = configured ?ulpfec"
      and pf: "policy_flexfec p = flexfec_enabled" and pn: "policy_nack p = nack_enabled"
      unfolding e by (rule policy_of_configured)+
    have u: "(policy_ulpfec p \<noteq> None) = IsUlpfecEnabled ?ulpfec"
      unfolding pu by (simp add: configured_def IsUlpfecEnabled_def)
    have a: "flexfec_enabled \<longrightarrow> policy_red p = None \<and> policy_ulpfec p = None"
      unfolding pr pu by (simp add: configured_def)
    have b: "nack_enabled \<and> ulpfec \<ge> 0 \<and> name \<noteq> ''VP8'' \<and> name \<noteq> ''VP9'' \<longrightarrow> policy_ulpfec p = None"
      unfolding pu by (simp add: configured_def)
    have c: "ulpfec \<ge> 0 \<and> red < 0 \<longrightarrow> policy_ulpfec p = None"
      unfolding pu by (simp add: configured_def)
    have d: "override \<longrightarrow> policy_ulpfec p = None"
      unfolding pu by (simp add: configured_def)
    have f: "(name = ''VP8'' \<or> name = ''VP9'') \<and> nack_enabled \<and> ulpfec \<ge> 0 \<and> red \<ge> 0
            \<and> \<not> flexfec_enabled \<and> \<not> override \<longrightarrow>
            policy_ulpfec p = Some ulpfec \<and> policy_red p = Some red"
      unfolding pr pu by (auto simp: configured_def)
    have g: "(policy_red p, policy_ulpfec p) =
            spec_policy override flexfec_enabled nack_enabled name red ulpfec"
      unfolding pr pu by (simp add: spec_policy_closed)
    have h: "\<exists>s'. ConfigureProtection env s = Inr s'
              \<and> rtc_log s' = ?log
              \<and> calls s' = calls s @
                   [SetProtectionMethod (policy_flexfec p \<or> policy_ulpfec p \<noteq> None) (policy_nack p)]
              \<and> length (rtp_rtcp_modules s') = length (rtp_rtcp_modules s)
              \<and> (\<forall>m \<in> set (rtp_rtcp_modules s').
                    map_option (map_prod configured configured) (ulpfec_config m) =
                      Some (policy_red p, policy_ulpfec p))"
    proof -
      have c2: "calls s' = calls s @
          [SetProtectionMethod (policy_flexfec p \<or> policy_ulpfec p \<noteq> None) (policy_nack p)]"
        unfolding pf pn u by (rule calls)
      have m2: "\<forall>m \<in> set (rtp_rtcp_modules s').
          map_option (map_prod configured configured) (ulpfec_config m) =
            Some (policy_red p, policy_ulpfec p)"
        unfolding pr pu using mods by simp
      show ?thesis using s' [OF nf] log c2 len m2 by blast
    qed
    show ?thesis using a b c d f g pf pn h by blast
  qed
  show ?thesis
    using failing returns props by blast
qed

theorem ConfigureProtection_policy_witness:
  "protection_policy scenario_env scenario_stream =
     Inr \<lparr>policy_flexfec = False, policy_red = Some 101, policy_ulpfec = Some 100, policy_nack = True\<rparr>
   \<and> spec_policy False False True ''VP8'' 101 100 = (Some 101, Some 100)
   \<and> protection_policy scenario_env (scenario_stream\<lparr>config := scenario_config\<lparr>payload_name := ''H264''\<rparr>\<rparr>) =
     Inr \<lparr>policy_flexfec = False, policy_red = Some 101, policy_ulpfec = None, policy_nack = True\<rparr>
   \<and> spec_policy False False True ''H264'' 101 100 = (Some 101, None)
   \<and> protection_policy scenario_env (scenario_stream\<lparr>config := scenario_config\<lparr>red_payload_type := - 1\<rparr>\<rparr>) =
     Inr \<lparr>policy_flexfec = False, policy_red = None, policy_ulpfec = None, policy_nack = True\<rparr>
   \<and> spec_policy False False True ''VP8'' (- 1) 100 = (None, None)
   \<and> protection_policy scenario_env
        (scenario_stream\<lparr>flexfec_sender :=
           Some \<lparr>fs_payload_type = 35, fs_ssrc = 5, fs_protected_media_ssrc = 1001\<rparr>\<rparr>) =
     Inr \<lparr>policy_flexfec = True, policy_red = None, policy_ulpfec = None, policy_nack = True\<rparr>
   \<and> spec_policy False True True ''VP8'' 101 100 = (None, None)
   \<and> protection_policy experiment_env scenario_stream =
     Inr \<lparr>policy_flexfec = False, policy_red = Some 101, policy_ulpfec = None, policy_nack = True\<rparr>
   \<and> spec_policy True False True ''VP8'' 101 100 = (Some 101, None)
   \<and> spec_check_fails False False True ''VP8'' 200 100
   \<and> ConfigureProtection scenario_env
        (scenario_stream\<lparr>config := scenario_config\<lparr>red_payload_type := 200\<rparr>\<rparr>) = Inl DCheckFailed
   \<and> \<not> spec_check_fails True True True ''H264'' 101 200
   \<and> map_sum id rtc_log
        (ConfigureProtection experiment_env
           (scenario_stream\<lparr>config := scenario_config\<lparr>payload_name := ''H264'', ulpfec_payload_type := 200\<rparr>,
                            flexfec_sender :=
                              Some \<lparr>fs_payload_type = 35, fs_ssrc = 5, fs_protected_media_ssrc = 1001\<rparr>\<rparr>)) =
       Inr [(LS_INFO, ''Experiment to disable sending ULPFEC is enabled.''),
            (LS_INFO, ''Both FlexFEC and RED are configured. Disabling RED.'')]"
proof -
  note defs = protection_policy_def policy_of_def protection_rules_def rule_verify_def rule_nack_def
    rule_flexfec_def rule_experiment_def IsRedEnabled_def IsUlpfecEnabled_def
    PayloadTypeSupportsSkippingFecPackets_def PayloadStringToCodecType_def RTC_LOG_def
    scenario_env_def experiment_env_def scenario_config_def scenario_stream_def Let_def
  note spec_defs = spec_check_fails_def spec_fired_def spec_rule_red_def spec_rule_nack_def
    spec_rule_flexfec_def spec_rule_override_def configured_def out_of_range_def rule_message_def
  note vals = scenario_env_def experiment_env_def scenario_config_def scenario_stream_def
  let ?h264 = "scenario_stream\<lparr>config := scenario_config\<lparr>payload_name := ''H264''\<rparr>\<rparr>"
  let ?nored = "scenario_stream\<lparr>config := scenario_config\<lparr>red_payload_type := - 1\<rparr>\<rparr>"
  let ?flex = "scenario_stream\<lparr>flexfec_sender :=
           Some \<lparr>fs_payload_type = 35, fs_ssrc = 5, fs_protected_media_ssrc = 1001\<rparr>\<rparr>"
  let ?bad = "scenario_stream\<lparr>config := scenario_config\<lparr>red_payload_type := 200\<rparr>\<rparr>"
  let ?all = "scenario_stream\<lparr>config := scenario_config\<lparr>payload_name := ''H264'', ulpfec_payload_type := 200\<rparr>,
                            flexfec_sender :=
                              Some \<lparr>fs_payload_type = 35, fs_ssrc = 5, fs_protected_media_ssrc = 1001\<rparr>\<rparr>"
  have p1: "protection_policy scenario_env scenario_stream =
     Inr \<lparr>policy_flexfec = False, policy_red = Some 101, policy_ulpfec = Some 100, policy_nack = True\<rparr>"
    by (simp add: defs)
  have p2: "protection_policy scenario_env ?h264 =
     Inr \<lparr>policy_flexfec = False, policy_red = Some 101, policy_ulpfec = None, policy_nack = True\<rparr>"
    by (simp add: defs)
  have p3: "protection_policy scenario_env ?nored =
     Inr \<lparr>policy_flexfec = False, policy_red = None, policy_ulpfec = None, policy_nack = True\<rparr>"
    by (simp add: defs)
  have p4: "protection_policy scenario_env ?flex =
     Inr \<lparr>policy_flexfec = True, policy_red = None, policy_ulpfec = None, policy_nack = True\<rparr>"
    by (simp add: defs)
  have p5: "protection_policy experiment_env scenario_stream =
     Inr \<lparr>policy_flexfec = False, policy_red = Some 101, policy_ulpfec = None, policy_nack = True\<rparr>"
    by (simp add: defs)
  note t1 = ConfigureProtection_policy [OF refl refl refl refl refl refl, of scenario_env scenario_stream]
  note t2 = ConfigureProtection_policy [OF refl refl refl refl refl refl, of scenario_env ?h264]
  note t3 = ConfigureProtection_policy [OF refl refl refl refl refl refl, of scenario_env ?nored]
  note t4 = ConfigureProtection_policy [OF refl refl refl refl refl refl, of scenario_env ?flex]
  note t5 = ConfigureProtection_policy [OF refl refl refl refl refl refl, of experiment_env scenario_stream]
  note t6 = ConfigureProtection_policy [OF refl refl refl refl refl refl, of scenario_env ?bad]
  note t7 = ConfigureProtection_policy [OF refl refl refl refl refl refl, of experiment_env ?all]
  have q1: "spec_policy False False True ''VP8'' 101 100 = (Some 101, Some 100)"
    using t1 p1 by (simp add: vals)
  have q2: "spec_policy False False True ''H264'' 101 100 = (Some 101, None)"
    using t2 p2 by (simp add: vals)
  have q3: "spec_policy False False True ''VP8'' (- 1) 100 = (None, None)"
    using t3 p3 by (simp add: vals)
  have q4: "spec_policy False True True ''VP8'' 101 100 = (None, None)"
    using t4 p4 by (simp add: vals)
  have q5: "spec_policy True False True ''VP8'' 101 100 = (Some 101, None)"
    using t5 p5 by (simp add: vals)
  have f6: "spec_check_fails False False True ''VP8'' 200 100"
    by (simp add: spec_defs)
  have q6: "ConfigureProtection scenario_env ?bad = Inl DCheckFailed"
    using t6 f6 by (simp add: vals)
  have f7: "\<not> spec_check_fails True True True ''H264'' 101 200"
    by (simp add: spec_defs)
  have l7: "map rule_message (spec_fired True True True ''H264'' 101 200) =
      [(LS_INFO, ''Experiment to disable sending ULPFEC is enabled.''),
       (LS_INFO, ''Both FlexFEC and RED are configured. Disabling RED.'')]"
    by (simp add: spec_defs)
  have "\<exists>p s'. protection_policy experiment_env ?all = Inr p
      \<and> ConfigureProtection experiment_env ?all = Inr s'
      \<and> rtc_log s' = rtc_log ?all @ map rule_message (spec_fired True True True ''H264'' 101 200)"
    using t7 f7 by (simp add: vals)
  then obtain s' where "ConfigureProtection experiment_env ?all = Inr s'"
    and "rtc_log s' = rtc_log ?all @ map rule_message (spec_fired True True True ''H264'' 101 200)"
    by (elim exE conjE)
  then have q7: "map_sum id rtc_log (ConfigureProtection experiment_env ?all) =
       Inr [(LS_INFO, ''Experiment to disable sending ULPFEC is enabled.''),
            (LS_INFO, ''Both FlexFEC and RED are configured. Disabling RED.'')]"
    by (simp add: l7) (simp add: scenario_stream_def)
  show ?thesis using p1 p2 p3 p4 p5 q1 q2 q3 q4 q5 f6 q6 f7 q7 by blast
qed

text \<open>
  C3 as stated leaves the override out: with the field trial enabled, a VP8 stream with
  NACK, ULPFEC 100 and RED 101 and no FlexFEC is built with ULPFEC disabled.
\<close>

theorem ConfigureProtection_policy_counterexample:
  "field_trial_IsEnabled experiment_env ''WebRTC-DisableUlpFecExperiment''
   \<and> flexfec_sender scenario_stream = None
   \<and> payload_name (config scenario_stream) = ''VP8''
   \<and> nack_rtp_history_ms (config scenario_stream) = 1000
   \<and> ulpfec_payload_type (config scenario_stream) = 100
   \<and> red_payload_type (config scenario_stream) = 101
   \<and> protection_policy experiment_env scenario_stream =
       Inr \<lparr>policy_flexfec = False, policy_red = Some 101, policy_ulpfec = None, policy_nack = True\<rparr>
   \<and> map_sum id (map ulpfec_config \<circ> rtp_rtcp_modules)
        (new_VideoSendStreamImpl experiment_env scenario_config 2000000) = Inr [Some (101, - 1)]"
  by (simp add: protection_policy_def policy_of_def new_VideoSendStreamImpl_def
      MaybeCreateFlexfecSender_def CreateRtpRtcpModules_def
      ConfigureProtection_def protection_rules_def rule_verify_def rule_nack_def rule_flexfec_def
      rule_experiment_def IsRedEnabled_def IsUlpfecEnabled_def PayloadTypeSupportsSkippingFecPackets_def
      PayloadStringToCodecType_def SetUlpfecConfig_def SetStorePacketsStatus_def SetMaxRtpPacketSize_def
      ConfigureSsrcs_def SetSSRC_def
      kMinSendSidePacketHistorySize_def do_call_def RTC_LOG_def scenario_env_def experiment_env_def
      scenario_config_def scenario_stream_def Let_def)

subsection \<open>Construction of the scenario's stream\<close>






end
